theory Spec2Isabelle
  imports Main "HOL-Library.AList" "HOL-Library.Char_ord" "HOL-Library.List_Lexorder"
begin

section \<open>JavaScript values as the kernel observes them\<close>

text \<open>
  Strings are lists of code units; the model reads an Isabelle character as one code unit
  in the range 0..255.  An error thrown by JavaScript code is a value of \<open>js_error\<close>, and a
  computation that may throw returns \<open>js_error + 'a\<close> with \<open>Inl\<close> for the throw.

  A runtime value is described by what the executor can observe of it: its type tag, its
  properties (a data property holds a value, an accessor property may throw when it is
  read), what calling it returns when it is a function, what \<open>String(value)\<close> gives, and
  which built-in class it is an instance of.
\<close>

datatype js_error = TypeError | RangeError | SyntaxError | SecurityError | ParseError string | Thrown string

datatype js_value =
    JNull
  | JUndefined
  | JString string
  | JNumber string
  | JBoolean bool
  | JSymbol string
  | JBigInt int
  | JFunction string string "js_error + js_value" "(string \<times> js_prop) list"
  | JObject js_class "(string \<times> js_prop) list" "(string \<times> js_prop) list" "js_error + string"
and js_prop =
    Data js_value
  | Getter js_error
and js_class =
    ErrorObject js_value js_value js_value
  | DateObject "string option"
  | RegExpObject string
  | MapObject "(js_value \<times> js_value) list"
  | SetObject "js_value list"
  | CanvasElement "js_error + string" string string string
  | HTMLElement string
  | ArrayObject "js_value list"
  | TypedArray string "nat option"
  | PromiseObject
  | PlainObject "string option"

text \<open>
  \<open>JNumber s\<close> is the number whose \<open>String\<close> rendering is \<open>s\<close>; \<open>JSymbol s\<close> is the symbol
  whose \<open>toString()\<close> is \<open>s\<close>.  \<open>JFunction name source call props\<close> is a function with the
  given \<open>name\<close> property and source text, whose call without arguments completes with
  \<open>call\<close>.  \<open>JObject cls own inherited str\<close> is an object of class \<open>cls\<close> with its own
  enumerable properties, the properties it inherits, and the completion of \<open>String(value)\<close>.
  \<open>DateObject None\<close> is a date whose time value is NaN.
\<close>

type_synonym IMimeBundle = "(string \<times> js_value) list"

section \<open>display.ts: the display helper\<close>

record IDisplayData =
  data :: IMimeBundle
  metadata :: "(string \<times> js_value) list"
  transient :: "string option"

text \<open>
  The callbacks are code of the host.  A callback is modelled by its effect on the host's
  state \<open>'w\<close>; it does not reach back into the helper whose private fields it cannot see.
  The private fields \<open>_displayCallback\<close>, \<open>_clearCallback\<close>, \<open>_displayId\<close> and \<open>_result\<close>
  and the method \<open>_sendDisplay\<close> lose their underscore, and the method \<open>text\<close> is
  \<open>text_display\<close>.
\<close>

record 'w DisplayHelper =
  displayCallback :: "(IDisplayData \<Rightarrow> 'w \<Rightarrow> 'w) option"
  clearCallback :: "(bool \<Rightarrow> 'w \<Rightarrow> 'w) option"
  displayId :: "string option"
  result :: "IMimeBundle option"

definition newDisplayHelper :: "string option \<Rightarrow> 'w DisplayHelper" where
  "newDisplayHelper did =
     \<lparr>displayCallback = None, clearCallback = None, displayId = did, result = None\<rparr>"

definition setCallbacks ::
  "(IDisplayData \<Rightarrow> 'w \<Rightarrow> 'w) option \<Rightarrow> (bool \<Rightarrow> 'w \<Rightarrow> 'w) option
     \<Rightarrow> 'w DisplayHelper \<Rightarrow> 'w DisplayHelper" where
  "setCallbacks onDisplay onClear h = h\<lparr>displayCallback := onDisplay, clearCallback := onClear\<rparr>"

definition getResult :: "'w DisplayHelper \<Rightarrow> IMimeBundle option" where
  "getResult h = result h"

definition clearResult :: "'w DisplayHelper \<Rightarrow> 'w DisplayHelper" where
  "clearResult h = h\<lparr>result := None\<rparr>"

text \<open>\<open>this._displayId ? { display_id } : undefined\<close>: the empty string is falsy too.\<close>

definition transientOf :: "string option \<Rightarrow> string option" where
  "transientOf did = (case did of None \<Rightarrow> None | Some i \<Rightarrow> if i = [] then None else Some i)"

definition sendDisplay ::
  "IMimeBundle \<Rightarrow> (string \<times> js_value) list option \<Rightarrow> 'w DisplayHelper \<Rightarrow> 'w
     \<Rightarrow> 'w DisplayHelper \<times> 'w" where
  "sendDisplay d md h w =
     (let displayData = \<lparr>data = d,
                          metadata = (case md of None \<Rightarrow> [] | Some m \<Rightarrow> m),
                          transient = transientOf (displayId h)\<rparr>
      in case displayCallback h of
           Some cb \<Rightarrow> (h, cb displayData w)
         | None \<Rightarrow> (h\<lparr>result := Some d\<rparr>, w))"

definition html_bundle :: "string \<Rightarrow> IMimeBundle" where
  "html_bundle content = [(''text/html'', JString content), (''text/plain'', JString content)]"

definition svg_bundle :: "string \<Rightarrow> IMimeBundle" where
  "svg_bundle content = [(''image/svg+xml'', JString content), (''text/plain'', JString ''[SVG Image]'')]"

definition png_bundle :: "string \<Rightarrow> IMimeBundle" where
  "png_bundle base64Content =
     [(''image/png'', JString base64Content), (''text/plain'', JString ''[PNG Image]'')]"

definition jpeg_bundle :: "string \<Rightarrow> IMimeBundle" where
  "jpeg_bundle base64Content =
     [(''image/jpeg'', JString base64Content), (''text/plain'', JString ''[JPEG Image]'')]"

definition text_bundle :: "string \<Rightarrow> IMimeBundle" where
  "text_bundle content = [(''text/plain'', JString content)]"

definition markdown_bundle :: "string \<Rightarrow> IMimeBundle" where
  "markdown_bundle content = [(''text/markdown'', JString content), (''text/plain'', JString content)]"

definition latex_bundle :: "string \<Rightarrow> IMimeBundle" where
  "latex_bundle content = [(''text/latex'', JString content), (''text/plain'', JString content)]"

definition json_bundle :: "js_value \<Rightarrow> js_value \<Rightarrow> IMimeBundle" where
  "json_bundle content text = [(''application/json'', content), (''text/plain'', text)]"

definition html ::
  "string \<Rightarrow> (string \<times> js_value) list option \<Rightarrow> 'w DisplayHelper \<Rightarrow> 'w \<Rightarrow> 'w DisplayHelper \<times> 'w" where
  "html content md = sendDisplay (html_bundle content) md"

definition svg ::
  "string \<Rightarrow> (string \<times> js_value) list option \<Rightarrow> 'w DisplayHelper \<Rightarrow> 'w \<Rightarrow> 'w DisplayHelper \<times> 'w" where
  "svg content md = sendDisplay (svg_bundle content) md"

definition png ::
  "string \<Rightarrow> (string \<times> js_value) list option \<Rightarrow> 'w DisplayHelper \<Rightarrow> 'w \<Rightarrow> 'w DisplayHelper \<times> 'w" where
  "png base64Content md = sendDisplay (png_bundle base64Content) md"

definition jpeg ::
  "string \<Rightarrow> (string \<times> js_value) list option \<Rightarrow> 'w DisplayHelper \<Rightarrow> 'w \<Rightarrow> 'w DisplayHelper \<times> 'w" where
  "jpeg base64Content md = sendDisplay (jpeg_bundle base64Content) md"

definition text_display ::
  "string \<Rightarrow> (string \<times> js_value) list option \<Rightarrow> 'w DisplayHelper \<Rightarrow> 'w \<Rightarrow> 'w DisplayHelper \<times> 'w" where
  "text_display content md = sendDisplay (text_bundle content) md"

definition markdown ::
  "string \<Rightarrow> (string \<times> js_value) list option \<Rightarrow> 'w DisplayHelper \<Rightarrow> 'w \<Rightarrow> 'w DisplayHelper \<times> 'w" where
  "markdown content md = sendDisplay (markdown_bundle content) md"

definition latex ::
  "string \<Rightarrow> (string \<times> js_value) list option \<Rightarrow> 'w DisplayHelper \<Rightarrow> 'w \<Rightarrow> 'w DisplayHelper \<times> 'w" where
  "latex content md = sendDisplay (latex_bundle content) md"

text \<open>
  \<open>json\<close> evaluates \<open>JSON.stringify(content, null, 2)\<close> before it sends anything.  The
  built-in is a parameter: it returns a string or \<open>undefined\<close>, or throws (a cyclic
  structure, a BigInt), and then nothing is sent.
\<close>

definition json ::
  "(js_value \<Rightarrow> js_error + js_value) \<Rightarrow> js_value \<Rightarrow> (string \<times> js_value) list option
     \<Rightarrow> 'w DisplayHelper \<Rightarrow> 'w \<Rightarrow> js_error + 'w DisplayHelper \<times> 'w" where
  "json stringify content md h w =
     (case stringify content of
        Inl e \<Rightarrow> Inl e
      | Inr t \<Rightarrow> Inr (sendDisplay (json_bundle content t) md h w))"

definition mime ::
  "IMimeBundle \<Rightarrow> (string \<times> js_value) list option \<Rightarrow> 'w DisplayHelper \<Rightarrow> 'w \<Rightarrow> 'w DisplayHelper \<times> 'w" where
  "mime mimeBundle md = sendDisplay mimeBundle md"

section \<open>String operations of the language\<close>

definition startsWith :: "string \<Rightarrow> string \<Rightarrow> bool" where
  "startsWith s p = (take (length p) s = p)"

definition endsWith :: "string \<Rightarrow> string \<Rightarrow> bool" where
  "endsWith s p = (length p \<le> length s \<and> drop (length s - length p) s = p)"

text \<open>
  \<open>s.substring(a, b)\<close> with non-negative integer arguments: both are clamped to the length
  and swapped when \<open>a > b\<close>.  \<open>s.substring(a)\<close> runs to the end.
\<close>

definition substring :: "string \<Rightarrow> nat \<Rightarrow> nat \<Rightarrow> string" where
  "substring s a b =
     (let a' = min a (length s); b' = min b (length s)
      in take (max a' b' - min a' b') (drop (min a' b') s))"

definition substringFrom :: "string \<Rightarrow> nat \<Rightarrow> string" where
  "substringFrom s a = drop (min a (length s)) s"

fun join :: "string \<Rightarrow> string list \<Rightarrow> string" where
  "join sep [] = []"
| "join sep [x] = x"
| "join sep (x # y # ys) = x @ sep @ join sep (y # ys)"

text \<open>A template literal renders \<open>undefined\<close> as the text \<open>undefined\<close>.\<close>

definition template :: "string option \<Rightarrow> string" where
  "template v = (case v of None \<Rightarrow> ''undefined'' | Some s \<Rightarrow> s)"

fun show_nat :: "nat \<Rightarrow> string" where
  "show_nat n =
     (if n < 10 then [''0123456789'' ! n]
      else show_nat (n div 10) @ [''0123456789'' ! (n mod 10)])"

declare show_nat.simps [simp del]

definition show_int :: "int \<Rightarrow> string" where
  "show_int i = (if i < 0 then ''-'' @ show_nat (nat (- i)) else show_nat (nat i))"

text \<open>
  White space and line terminators among the code units 0..255: what \<open>trim\<close> removes and
  what \<open>\s\<close> matches.
\<close>

definition isWhiteSpace :: "char \<Rightarrow> bool" where
  "isWhiteSpace c = (c \<in> set [CHR 0x09, CHR 0x0A, CHR 0x0B, CHR 0x0C, CHR 0x0D, CHR 0x20, CHR 0xA0])"

definition trim :: "string \<Rightarrow> string" where
  "trim s = rev (dropWhile isWhiteSpace (rev (dropWhile isWhiteSpace s)))"

text \<open>\<open>toLowerCase\<close> on the code units 0..255: the ASCII capitals and the Latin-1 capitals.\<close>

definition lowerChar :: "char \<Rightarrow> char" where
  "lowerChar c =
     (let n = of_char c :: nat
      in if (65 \<le> n \<and> n \<le> 90) \<or> (192 \<le> n \<and> n \<le> 222 \<and> n \<noteq> 215) then char_of (n + 32) else c)"

definition toLowerCase :: "string \<Rightarrow> string" where
  "toLowerCase s = map lowerChar s"

text \<open>
  A regular expression with the \<open>i\<close> flag compares an ASCII letter of the pattern with the
  ASCII capitals and small letters only.
\<close>

definition asciiLower :: "char \<Rightarrow> char" where
  "asciiLower c =
     (let n = of_char c :: nat in if 65 \<le> n \<and> n \<le> 90 then char_of (n + 32) else c)"

text \<open>\<open>s.split('\n')\<close>: the pieces between the line feeds; never empty.\<close>

fun splitLines :: "string \<Rightarrow> string list" where
  "splitLines [] = [[]]"
| "splitLines (c # cs) =
     (if c = CHR 0x0A then [] # splitLines cs
      else (case splitLines cs of [] \<Rightarrow> [[c]] | l # ls \<Rightarrow> (c # l) # ls))"

section \<open>Own properties of an ordinary object\<close>

text \<open>
  The own string keys of an ordinary object are listed with the array indices first, in
  ascending order, and then the other keys in the order they were added.  An array index
  is the canonical decimal text of a number below \<open>2^32 - 1 = 4294967295\<close>.  Two canonical
  decimal texts compare as numbers when they are compared by length first and code unit
  by code unit second.
\<close>

definition decimalLess :: "string \<Rightarrow> string \<Rightarrow> bool" where
  "decimalLess a b = (length a < length b \<or> (length a = length b \<and> a < b))"

definition isArrayIndex :: "string \<Rightarrow> bool" where
  "isArrayIndex s =
     (s \<noteq> [] \<and> list_all (\<lambda>c. c \<in> set ''0123456789'') s
      \<and> (s = ''0'' \<or> hd s \<noteq> CHR ''0'') \<and> decimalLess s ''4294967295'')"

definition addOwnProperty :: "string \<Rightarrow> 'v \<Rightarrow> (string \<times> 'v) list \<Rightarrow> (string \<times> 'v) list" where
  "addOwnProperty k v al =
     (if map_of al k \<noteq> None then AList.update k v al
      else if isArrayIndex k
      then takeWhile (\<lambda>kv. isArrayIndex (fst kv) \<and> decimalLess (fst kv) k) al
             @ [(k, v)]
             @ dropWhile (\<lambda>kv. isArrayIndex (fst kv) \<and> decimalLess (fst kv) k) al
      else al @ [(k, v)])"

section \<open>The syntax tree the parser hands over\<close>

text \<open>
  The parser is a library outside the repository.  The tree is the ESTree form it
  produces, cut down to the fields the executor reads: the type tag of a node, the source
  range of a top-level node and of the expression of an expression statement, the bound
  names of declarations, and the specifiers of imports.  \<open>Property key value\<close> carries
  \<open>prop.key.name\<close>, which is \<open>undefined\<close> (\<open>None\<close>) for a key that is not an identifier;
  a rest element among the properties of an object pattern has no \<open>key\<close> at all.
\<close>

datatype pattern =
    Identifier string
  | ObjectPattern "object_member list"
  | ArrayPattern "pattern option list"
  | AssignmentPattern pattern
  | RestElement pattern
and object_member =
    Property "string option" pattern
  | RestMember pattern

datatype import_specifier =
    ImportSpecifier "string option" string
  | ImportDefaultSpecifier string
  | ImportNamespaceSpecifier string

datatype expression_type = AssignmentExpression | OtherExpression

datatype statement =
    FunctionDeclaration string
  | ClassDeclaration string
  | VariableDeclaration "pattern list"
  | ExpressionStatement expression_type nat nat
  | ImportDeclaration string "import_specifier list"
  | OtherStatement

datatype node = Node (stmt: statement) (nstart: nat) (nend: nat)

type_synonym program = "node list"

text \<open>\<open>parseScript\<close>: the tree, or a thrown error with its message.\<close>

type_synonym parser = "string \<Rightarrow> string + program"

section \<open>executor.ts: the source rewriter\<close>

record IMagicImportsConfig =
  enabled :: bool
  baseUrl :: string
  enableAutoNpm :: bool

record ExecutorConfig =
  magicImports :: IMagicImportsConfig

definition defaultConfig :: ExecutorConfig where
  "defaultConfig =
     \<lparr>magicImports = \<lparr>enabled = True, baseUrl = ''https://cdn.jsdelivr.net/'', enableAutoNpm = True\<rparr>\<rparr>"

record 'g JavaScriptExecutor =
  config :: ExecutorConfig
  globalScope :: 'g

text \<open>
  \<open>addToGlobalThisCode(key, identifier = key)\<close>: the default applies when the second
  argument is missing or \<open>undefined\<close>.
\<close>

definition addToGlobalThisCode :: "string option \<Rightarrow> string option \<Rightarrow> string" where
  \<open>addToGlobalThisCode key identifier =
     ''globalThis["'' @ template key @ ''"] = ''
       @ template (case identifier of None \<Rightarrow> key | Some i \<Rightarrow> Some i) @ '';''\<close>

definition replaceCode :: "string \<Rightarrow> nat \<Rightarrow> nat \<Rightarrow> string \<Rightarrow> string" where
  "replaceCode code s e newCode = substring code 0 s @ newCode @ substringFrom code e"

text \<open>A \<open>for ... of\<close> loop that pushes the code of each element and stops at a throw.\<close>

fun collect :: "('a \<Rightarrow> js_error + string list) \<Rightarrow> 'a list \<Rightarrow> js_error + string list" where
  "collect f [] = Inr []"
| "collect f (x # xs) =
     (case f x of
        Inl e \<Rightarrow> Inl e
      | Inr c \<Rightarrow> (case collect f xs of Inl e \<Rightarrow> Inl e | Inr cs \<Rightarrow> Inr (c @ cs)))"

definition patternName :: "pattern \<Rightarrow> string option" where
  "patternName p = (case p of Identifier n \<Rightarrow> Some n | _ \<Rightarrow> None)"

text \<open>
  One property of an object pattern.  Reading \<open>prop.key.name\<close> of a rest element throws a
  TypeError, since \<open>prop.key\<close> is \<open>undefined\<close>.
\<close>

definition propertyCode :: "object_member \<Rightarrow> js_error + string list" where
  "propertyCode prop =
     (case prop of
        RestMember a \<Rightarrow> Inl TypeError
      | Property key val \<Rightarrow>
          if key = Some ''default''
          then (case val of
                  Identifier v \<Rightarrow> Inr [addToGlobalThisCode (Some v) None]
                | _ \<Rightarrow> Inr [])
          else Inr [addToGlobalThisCode key None])"

definition declarationCode :: "pattern \<Rightarrow> js_error + string list" where
  "declarationCode d =
     (case d of
        ObjectPattern props \<Rightarrow> collect propertyCode props
      | ArrayPattern elements \<Rightarrow>
          Inr (map (\<lambda>key. addToGlobalThisCode key None)
                 (map patternName (map the (filter (\<lambda>el. el \<noteq> None) elements))))
      | Identifier n \<Rightarrow> Inr [addToGlobalThisCode (Some n) None]
      | _ \<Rightarrow> Inr [])"

definition nodeCode :: "node \<Rightarrow> js_error + string list" where
  \<open>nodeCode n =
     (case stmt n of
        FunctionDeclaration name \<Rightarrow> Inr [''globalThis["'' @ name @ ''"] = '' @ name @ '';'']
      | ClassDeclaration name \<Rightarrow> Inr [''globalThis["'' @ name @ ''"] = '' @ name @ '';'']
      | VariableDeclaration declarations \<Rightarrow> collect declarationCode declarations
      | _ \<Rightarrow> Inr [])\<close>

definition addToGlobalScope :: "program \<Rightarrow> js_error + string" where
  "addToGlobalScope body =
     (case collect nodeCode body of
        Inl e \<Rightarrow> Inl e
      | Inr extraCode \<Rightarrow> Inr (join ''\<newline>'' extraCode))"

text \<open>
  The object \<open>handleLastStatement\<close> returns.  Its \<open>withReturn\<close> field is \<open>lastWithReturn\<close>
  here, since the result of \<open>makeAsyncFromCode\<close> has a field of the same name.
\<close>

record LastStatementResult =
  lastWithReturn :: bool
  modifiedUserCode :: string
  extraReturnCode :: string

text \<open>The scan for a semicolon; \<open>code[i]\<close> beyond the end is \<open>undefined\<close>.\<close>

function semicolonFound :: "string \<Rightarrow> nat \<Rightarrow> nat \<Rightarrow> bool" where
  "semicolonFound code i restEnd =
     (if i < restEnd
      then (if i < length code \<and> code ! i = CHR '';'' then True
            else semicolonFound code (Suc i) restEnd)
      else False)"
  by pat_completeness auto
termination
  by (relation "measure (\<lambda>(code, i, restEnd). restEnd - i)") auto

declare semicolonFound.simps [simp del]

definition handleLastStatement :: "string \<Rightarrow> program \<Rightarrow> LastStatementResult" where
  "handleLastStatement code body =
     (if body = [] then \<lparr>lastWithReturn = False, modifiedUserCode = code, extraReturnCode = ''''\<rparr>
      else (case stmt (last body) of
              ExpressionStatement ty lastNodeExprStart lastNodeExprEnd \<Rightarrow>
                if ty \<noteq> AssignmentExpression
                    \<and> \<not> semicolonFound code lastNodeExprEnd (nend (last body))
                then \<lparr>lastWithReturn = True,
                      modifiedUserCode =
                        substring code 0 lastNodeExprStart @ substringFrom code lastNodeExprEnd,
                      extraReturnCode =
                        ''return ['' @ substring code lastNodeExprStart lastNodeExprEnd @ ''];''\<rparr>
                else \<lparr>lastWithReturn = False, modifiedUserCode = code, extraReturnCode = ''''\<rparr>
            | _ \<Rightarrow> \<lparr>lastWithReturn = False, modifiedUserCode = code, extraReturnCode = ''''\<rparr>))"

definition noMagicStarts :: "string list" where
  "noMagicStarts = [''http://'', ''https://'', ''data:'', ''file://'', ''blob:'']"

definition noEmsEnds :: "string list" where
  "noEmsEnds = [''.js'', ''.mjs'', ''.cjs'', ''.wasm'', ''+esm'']"

definition normalizedBaseUrl :: "ExecutorConfig \<Rightarrow> string" where
  "normalizedBaseUrl cfg =
     (if endsWith (baseUrl (magicImports cfg)) ''/'' then baseUrl (magicImports cfg)
      else baseUrl (magicImports cfg) @ ''/'')"

definition emsExtraEnd :: "string \<Rightarrow> string" where
  "emsExtraEnd source =
     (let addEms = \<not> list_ex (\<lambda>e. endsWith source e) noEmsEnds
      in if addEms then (if endsWith source ''/'' then ''+esm'' else ''/+esm'') else '''')"

definition transformImportSource :: "ExecutorConfig \<Rightarrow> string \<Rightarrow> string" where
  "transformImportSource cfg source =
     (if \<not> enabled (magicImports cfg) then source
      else if list_ex (\<lambda>s. startsWith source s) noMagicStarts then source
      else if list_ex (\<lambda>s. startsWith source s) [''npm/'', ''gh/'']
                \<or> \<not> enableAutoNpm (magicImports cfg)
      then normalizedBaseUrl cfg @ source @ emsExtraEnd source
      else normalizedBaseUrl cfg @ ''npm/'' @ source @ emsExtraEnd source)"

text \<open>
  The suffix rule as the specification words it, for comparison with \<open>emsExtraEnd\<close>: append
  \<open>/+esm\<close> when the specifier ends neither in one of the listed endings nor in a slash,
  and nothing otherwise.
\<close>

definition suffixRule_spec :: "string \<Rightarrow> string" where
  "suffixRule_spec source =
     (if \<not> list_ex (\<lambda>e. endsWith source e) noEmsEnds \<and> \<not> endsWith source ''/''
      then ''/+esm'' else '''')"

text \<open>The scan over the specifiers of one import declaration.\<close>

record ImportScan =
  hasDefaultImport :: bool
  defaultImportName :: string
  hasNamespaceImport :: bool
  namespaceImportName :: string
  importedNames :: "string option list"
  localNames :: "string list"

definition scanSpecifier :: "ImportScan \<Rightarrow> import_specifier \<Rightarrow> ImportScan" where
  "scanSpecifier sc specifier =
     (case specifier of
        ImportSpecifier imported local \<Rightarrow>
          if imported = Some ''default''
          then sc\<lparr>hasDefaultImport := True, defaultImportName := local\<rparr>
          else sc\<lparr>importedNames := importedNames sc @ [imported],
                  localNames := localNames sc @ [local]\<rparr>
      | ImportDefaultSpecifier local \<Rightarrow> sc\<lparr>hasDefaultImport := True, defaultImportName := local\<rparr>
      | ImportNamespaceSpecifier local \<Rightarrow>
          sc\<lparr>hasNamespaceImport := True, namespaceImportName := local\<rparr>)"

definition emptyScan :: ImportScan where
  "emptyScan = \<lparr>hasDefaultImport = False, defaultImportName = '''', hasNamespaceImport = False,
                 namespaceImportName = '''', importedNames = [], localNames = []\<rparr>"

text \<open>
  The loop over the named imports: the text between the braces and the global-scope
  assignments.  The two arrays grow together, so they are walked as pairs.
\<close>

fun namedImportsLoop :: "(string option \<times> string) list \<Rightarrow> string \<times> string" where
  "namedImportsLoop [] = ('''', '''')"
| "namedImportsLoop ((imported, local) # rest) =
     (template imported @ (if rest \<noteq> [] then '', '' else '''') @ fst (namedImportsLoop rest),
      addToGlobalThisCode (Some local) imported @ snd (namedImportsLoop rest))"

definition importNodeCode :: "string \<Rightarrow> ImportScan \<Rightarrow> string \<times> string" where
  \<open>importNodeCode importSource sc =
     (let d = (if hasDefaultImport sc
               then (''const { default: '' @ defaultImportName sc @ '' } = await import("''
                       @ importSource @ ''");\<newline>'',
                     addToGlobalThisCode (Some (defaultImportName sc)) None)
               else ('''', ''''));
          n = (if hasNamespaceImport sc
               then (''const '' @ namespaceImportName sc @ '' = await import("''
                       @ importSource @ ''");\<newline>'',
                     addToGlobalThisCode (Some (namespaceImportName sc)) None)
               else ('''', ''''));
          m = (if importedNames sc \<noteq> []
               then (let l = namedImportsLoop (zip (importedNames sc) (localNames sc))
                     in (''const { '' @ fst l @ '' } = await import("'' @ importSource @ ''");\<newline>'',
                         snd l))
               else ('''', ''''))
      in (fst d @ fst n @ fst m, snd d @ snd n @ snd m))\<close>

text \<open>
  One step of the backward loop over the top-level nodes; the state is the pair
  \<open>(modifiedUserCode, codeAddToGlobalScope)\<close>.
\<close>

definition rewriteImportNode :: "ExecutorConfig \<Rightarrow> string \<times> string \<Rightarrow> node \<Rightarrow> string \<times> string" where
  \<open>rewriteImportNode cfg st n =
     (case stmt n of
        ImportDeclaration src specifiers \<Rightarrow>
          (let importSource = transformImportSource cfg src
           in if specifiers = []
              then (replaceCode (fst st) (nstart n) (nend n)
                      (''await import("'' @ importSource @ ''");\<newline>''),
                    snd st)
              else (let c = importNodeCode importSource (foldl scanSpecifier emptyScan specifiers)
                    in (replaceCode (fst st) (nstart n) (nend n) (fst c), snd st @ snd c)))
      | _ \<Rightarrow> st)\<close>

definition rewriteImportStatements :: "ExecutorConfig \<Rightarrow> string \<Rightarrow> program \<Rightarrow> string \<times> string" where
  "rewriteImportStatements cfg code body = foldl (rewriteImportNode cfg) (code, '''') (rev body)"

text \<open>
  \<open>makeAsyncFromCode\<close>.  The \<open>Function\<close> constructor is a parameter: it compiles the text
  it is given or throws.  \<open>assembleCode\<close> is the part of the method between the parse and
  the constructor: it yields the flag and the combined code.
\<close>

datatype 'f async_function = NoOp | Compiled 'f

record 'f IAsyncCodeResult =
  asyncFunction :: "'f async_function"
  withReturn :: bool

definition assembleCode :: "ExecutorConfig \<Rightarrow> string \<Rightarrow> program \<Rightarrow> js_error + bool \<times> string" where
  "assembleCode cfg code ast =
     (case addToGlobalScope ast of
        Inl e \<Rightarrow> Inl e
      | Inr codeAddToGlobalScope \<Rightarrow>
          (let r = handleLastStatement code ast;
               importResult = rewriteImportStatements cfg (modifiedUserCode r) ast;
               finalCode = fst importResult;
               codeAdd = codeAddToGlobalScope @ snd importResult
           in Inr (lastWithReturn r,
                   ''\<newline>      '' @ finalCode @ ''\<newline>      '' @ codeAdd
                     @ ''\<newline>      '' @ extraReturnCode r @ ''\<newline>    '')))"

definition functionText :: "string \<Rightarrow> string" where
  "functionText combinedCode =
     ''\<newline>      const afunc = async function() {\<newline>        ''
       @ ''const { display, console } = this;'' @ ''\<newline>        '' @ combinedCode
       @ ''\<newline>      };\<newline>      return afunc;\<newline>    ''"

definition makeAsyncFromCode ::
  "ExecutorConfig \<Rightarrow> parser \<Rightarrow> (string \<Rightarrow> js_error + 'f) \<Rightarrow> string \<Rightarrow> js_error + 'f IAsyncCodeResult" where
  "makeAsyncFromCode cfg parseScript newFunction code =
     (if length code = 0 then Inr \<lparr>asyncFunction = NoOp, withReturn = False\<rparr>
      else (case parseScript code of
              Inl m \<Rightarrow> Inl (ParseError m)
            | Inr ast \<Rightarrow>
                (case assembleCode cfg code ast of
                   Inl e \<Rightarrow> Inl e
                 | Inr (wr, combinedCode) \<Rightarrow>
                     (case newFunction (functionText combinedCode) of
                        Inl e \<Rightarrow> Inl e
                      | Inr f \<Rightarrow> Inr \<lparr>asyncFunction = Compiled f, withReturn = wr\<rparr>))))"

text \<open>
  \<open>extractImports\<close>, with the executor passed through: the method returns the list and
  the executor as it leaves it.  Everything after the length test runs inside \<open>try\<close>.
\<close>

record IImportInfo =
  source :: string
  url :: string
  defaultImport :: "string option"
  namespaceImport :: "string option"
  namedImports :: "(string \<times> string) list"

text \<open>
  \<open>importInfo.namedImports[name] = local\<close> on the plain object \<open>namedImports\<close>: for the
  name \<open>__proto__\<close> the assignment reaches the setter of the prototype, which ignores a
  string, and no property is added.
\<close>

definition recordSpecifier :: "IImportInfo \<Rightarrow> import_specifier \<Rightarrow> IImportInfo" where
  "recordSpecifier importInfo specifier =
     (case specifier of
        ImportDefaultSpecifier local \<Rightarrow> importInfo\<lparr>defaultImport := Some local\<rparr>
      | ImportNamespaceSpecifier local \<Rightarrow> importInfo\<lparr>namespaceImport := Some local\<rparr>
      | ImportSpecifier imported local \<Rightarrow>
          if imported = Some ''default'' then importInfo\<lparr>defaultImport := Some local\<rparr>
          else if template imported = ''__proto__'' then importInfo
          else importInfo\<lparr>namedImports :=
                 addOwnProperty (template imported) local (namedImports importInfo)\<rparr>)"

definition importsOfNode :: "ExecutorConfig \<Rightarrow> node \<Rightarrow> IImportInfo list" where
  "importsOfNode cfg n =
     (case stmt n of
        ImportDeclaration src specifiers \<Rightarrow>
          [foldl recordSpecifier
             \<lparr>source = src, url = transformImportSource cfg src, defaultImport = None,
              namespaceImport = None, namedImports = []\<rparr> specifiers]
      | _ \<Rightarrow> [])"

definition extractImports ::
  "parser \<Rightarrow> 'g JavaScriptExecutor \<Rightarrow> string \<Rightarrow> IImportInfo list \<times> 'g JavaScriptExecutor" where
  "extractImports parseScript this code =
     (if length code = 0 then ([], this)
      else (case parseScript code of
              Inl m \<Rightarrow> ([], this)
            | Inr ast \<Rightarrow> (concat (map (importsOfNode (config this)) ast), this)))"

section \<open>executor.ts: completeness check\<close>

text \<open>
  The five patterns are literal texts joined by \<open>.*\<close>, tested with the \<open>i\<close> flag.  A pattern
  is the list of its literal pieces, in small letters.  \<open>.\<close> matches any code unit but a
  line terminator.
\<close>

definition isLineTerminator :: "char \<Rightarrow> bool" where
  "isLineTerminator c = (c = CHR 0x0A \<or> c = CHR 0x0D)"

definition matchesAt :: "string \<Rightarrow> string \<Rightarrow> bool" where
  "matchesAt p s = (length p \<le> length s \<and> map asciiLower (take (length p) s) = p)"

text \<open>\<open>gapThen ps s\<close>: the rest \<open>.*p1.*p2...\<close> of a pattern matches at the start of \<open>s\<close>.\<close>

fun gapThen :: "string list \<Rightarrow> string \<Rightarrow> bool" where
  "gapThen [] s = True"
| "gapThen (p # ps) [] = (p = [] \<and> gapThen ps [])"
| "gapThen (p # ps) (c # cs) =
     ((matchesAt p (c # cs) \<and> gapThen ps (drop (length p) (c # cs)))
      \<or> (\<not> isLineTerminator c \<and> gapThen (p # ps) cs))"

text \<open>\<open>searchFrom p ps s\<close>: the pattern \<open>p.*p1.*p2...\<close> matches somewhere in \<open>s\<close>.\<close>

fun searchFrom :: "string \<Rightarrow> string list \<Rightarrow> string \<Rightarrow> bool" where
  "searchFrom p ps [] = (p = [] \<and> gapThen ps [])"
| "searchFrom p ps (c # cs) =
     ((matchesAt p (c # cs) \<and> gapThen ps (drop (length p) (c # cs))) \<or> searchFrom p ps cs)"

definition regexTest :: "string list \<Rightarrow> string \<Rightarrow> bool" where
  "regexTest pattern s = (case pattern of [] \<Rightarrow> True | p # ps \<Rightarrow> searchFrom p ps s)"

definition incompletePatterns :: "string list list" where
  "incompletePatterns =
     [[''unexpected end of input''],
      [''unterminated string''],
      [''unterminated template''],
      [''unexpected token'', ''eof''],
      [''expected'', ''but'', ''end'']]"

definition matchesIncompletePattern :: "string \<Rightarrow> bool" where
  "matchesIncompletePattern message = list_ex (\<lambda>pattern. regexTest pattern message) incompletePatterns"

datatype completeness = Complete | Incomplete | Invalid | Unknown

record IIsCompleteResult =
  status :: completeness
  indent :: "string option"

definition opensBlock :: "string \<Rightarrow> bool" where
  "opensBlock lastLine =
     (trim lastLine \<noteq> [] \<and> last (trim lastLine) \<in> set [CHR ''{'', CHR ''('', CHR ''['']) "

definition nextIndent :: "string \<Rightarrow> string" where
  "nextIndent code =
     (let lines = splitLines code;
          lastLine = last lines;
          currentIndent = takeWhile isWhiteSpace lastLine
      in if opensBlock lastLine then currentIndent @ ''  '' else currentIndent)"

definition isComplete :: "parser \<Rightarrow> string \<Rightarrow> IIsCompleteResult" where
  "isComplete parseScript code =
     (if length (trim code) = 0 then \<lparr>status = Complete, indent = None\<rparr>
      else (case parseScript code of
              Inr ast \<Rightarrow> \<lparr>status = Complete, indent = None\<rparr>
            | Inl message \<Rightarrow>
                if matchesIncompletePattern message
                then \<lparr>status = Incomplete, indent = Some (nextIndent code)\<rparr>
                else \<lparr>status = Invalid, indent = None\<rparr>))"

text \<open>
  The parser reports the end of the text as the token \<open>end of source\<close>.  For the text
  \<open>function f() {\<close>, which ends at line 1, column 14, the message of the error it
  throws is the following.
\<close>

definition endOfSourceMessage :: string where
  "endOfSourceMessage =
     ''[1:14]: Unexpected token: '' @ [CHR 0x27] @ ''end of source'' @ [CHR 0x27]"

section \<open>executor.ts: completion\<close>

text \<open>
  What \<open>getAllProperties\<close> observes of an object: the completion of
  \<open>Object.getOwnPropertyNames\<close>, the keys a \<open>for ... in\<close> loop yields before it ends or
  throws, and the completion of \<open>Object.getPrototypeOf\<close> (\<open>None\<close> is \<open>null\<close>).  The root is
  \<open>None\<close> when it is \<open>null\<close> or \<open>undefined\<close>.  A prototype chain is finite here.
\<close>

datatype reflected = Reflected "js_error + string list" "string list" "js_error + reflected option"

text \<open>The state of the collection: the set \<open>seen\<close> and the array \<open>matches\<close>.\<close>

type_synonym collected = "string set \<times> string list"

definition addMatching :: "string \<Rightarrow> string list \<Rightarrow> collected \<Rightarrow> collected" where
  "addMatching prefix props st =
     foldl (\<lambda>(seen, matches) prop.
              if prop \<notin> seen \<and> startsWith prop prefix
              then (insert prop seen, matches @ [prop])
              else (seen, matches)) st props"

definition addCaseInsensitive :: "string \<Rightarrow> string \<Rightarrow> string list \<Rightarrow> collected \<Rightarrow> collected" where
  "addCaseInsensitive prefix lowerPrefix props st =
     foldl (\<lambda>(seen, matches) prop.
              if prop \<notin> seen \<and> startsWith (toLowerCase prop) lowerPrefix \<and> \<not> startsWith prop prefix
              then (insert prop seen, matches @ [prop])
              else (seen, matches)) st props"

text \<open>
  The first walk up the prototype chain.  When \<open>getOwnPropertyNames\<close> throws, the
  \<open>for ... in\<close> loop of that level is skipped with it; the body of the \<open>for ... in\<close> loop
  is the body of \<open>addMatching\<close>.  A throw of \<open>getPrototypeOf\<close> ends the walk.
\<close>

fun walkExact :: "string \<Rightarrow> reflected \<Rightarrow> collected \<Rightarrow> collected" where
  "walkExact prefix (Reflected own forIn proto) st =
     (let st' = (case own of
                   Inl e \<Rightarrow> st
                 | Inr ownProps \<Rightarrow> addMatching prefix forIn (addMatching prefix ownProps st))
      in case proto of
           Inl e \<Rightarrow> st'
         | Inr None \<Rightarrow> st'
         | Inr (Some parent) \<Rightarrow> walkExact prefix parent st')"

fun walkCaseInsensitive :: "string \<Rightarrow> string \<Rightarrow> reflected \<Rightarrow> collected \<Rightarrow> collected" where
  "walkCaseInsensitive prefix lowerPrefix (Reflected own forIn proto) st =
     (let st' = (case own of
                   Inl e \<Rightarrow> st
                 | Inr ownProps \<Rightarrow> addCaseInsensitive prefix lowerPrefix ownProps st)
      in case proto of
           Inl e \<Rightarrow> st'
         | Inr None \<Rightarrow> st'
         | Inr (Some parent) \<Rightarrow> walkCaseInsensitive prefix lowerPrefix parent st')"

text \<open>
  Every operation that can throw sits in an inner \<open>try\<close>, so the outer \<open>catch\<close> with its
  fallback loop is never entered.
\<close>

definition collectMatches :: "reflected option \<Rightarrow> string \<Rightarrow> string list" where
  "collectMatches obj prefix =
     (case obj of
        None \<Rightarrow> []
      | Some r \<Rightarrow>
          snd (walkCaseInsensitive prefix (toLowerCase prefix) r (walkExact prefix r ({}, []))))"

text \<open>
  The comparator handed to \<open>sort\<close>.  \<open>localeCompare\<close> belongs to the platform and is a
  parameter.
\<close>

definition compareMatches :: "(string \<Rightarrow> string \<Rightarrow> int) \<Rightarrow> string \<Rightarrow> string \<Rightarrow> string \<Rightarrow> int" where
  "compareMatches localeCompare prefix a b =
     (let aExact = startsWith a prefix; bExact = startsWith b prefix
      in if aExact \<and> \<not> bExact then - 1
         else if \<not> aExact \<and> bExact then 1
         else localeCompare a b)"

text \<open>
  \<open>Array.prototype.sort\<close> with a comparator.  For a consistent comparator the language
  fixes the result: the stable sort, which insertion from the right computes.
\<close>

fun sortInsert :: "('a \<Rightarrow> 'a \<Rightarrow> int) \<Rightarrow> 'a \<Rightarrow> 'a list \<Rightarrow> 'a list" where
  "sortInsert cmp x [] = [x]"
| "sortInsert cmp x (y # ys) = (if cmp x y \<le> 0 then x # y # ys else y # sortInsert cmp x ys)"

definition sortWith :: "('a \<Rightarrow> 'a \<Rightarrow> int) \<Rightarrow> 'a list \<Rightarrow> 'a list" where
  "sortWith cmp xs = foldr (sortInsert cmp) xs []"

definition getAllProperties :: "(string \<Rightarrow> string \<Rightarrow> int) \<Rightarrow> reflected option \<Rightarrow> string \<Rightarrow> string list" where
  "getAllProperties localeCompare obj prefix =
     sortWith (compareMatches localeCompare prefix) (collectMatches obj prefix)"

text \<open>
  A comparator is consistent when ``not after'' is a total preorder.
\<close>

definition consistentComparator :: "('a \<Rightarrow> 'a \<Rightarrow> int) \<Rightarrow> bool" where
  "consistentComparator cmp \<longleftrightarrow>
     (\<forall>a b. cmp a b \<le> 0 \<or> cmp b a \<le> 0) \<and>
     (\<forall>a b c. cmp a b \<le> 0 \<and> cmp b c \<le> 0 \<longrightarrow> cmp a c \<le> 0)"

text \<open>
  The comparison of two strings code unit by code unit, a consistent comparator to run
  the examples with.
\<close>

definition compareCodeUnits :: "string \<Rightarrow> string \<Rightarrow> int" where
  "compareCodeUnits a b = (if a < b then - 1 else if a = b then 0 else 1)"

text \<open>
  The root object of the example: own enumerable properties \<open>abc\<close>, \<open>abd\<close> and \<open>Abc\<close>, with
  \<open>Object.prototype\<close> above it.
\<close>

definition exampleRoot :: reflected where
  "exampleRoot =
     Reflected (Inr [''abc'', ''abd'', ''Abc'']) [''abc'', ''abd'', ''Abc'']
       (Inr (Some (Reflected
          (Inr [''constructor'', ''__defineGetter__'', ''__defineSetter__'', ''hasOwnProperty'',
                ''__lookupGetter__'', ''__lookupSetter__'', ''isPrototypeOf'',
                ''propertyIsEnumerable'', ''toString'', ''valueOf'', ''__proto__'',
                ''toLocaleString''])
          [] (Inr None))))"

text \<open>
  The invariant of the collection: \<open>seen\<close> holds the elements of \<open>matches\<close>, no name
  occurs twice, and every name matches the prefix, exactly or up to case.
\<close>

definition collectedOk :: "string \<Rightarrow> collected \<Rightarrow> bool" where
  "collectedOk prefix st \<longleftrightarrow>
     fst st = set (snd st) \<and> distinct (snd st) \<and>
     (\<forall>m \<in> set (snd st). startsWith m prefix \<or> startsWith (toLowerCase m) (toLowerCase prefix))"

section \<open>executor.ts: the value presenter\<close>

definition typeof :: "js_value \<Rightarrow> string" where
  "typeof v =
     (case v of
        JNull \<Rightarrow> ''object''
      | JUndefined \<Rightarrow> ''undefined''
      | JString s \<Rightarrow> ''string''
      | JNumber s \<Rightarrow> ''number''
      | JBoolean b \<Rightarrow> ''boolean''
      | JSymbol s \<Rightarrow> ''symbol''
      | JBigInt i \<Rightarrow> ''bigint''
      | JFunction name src call props \<Rightarrow> ''function''
      | JObject cls own inherited str \<Rightarrow> ''object'')"

definition truthy :: "js_value \<Rightarrow> bool" where
  "truthy v =
     (case v of
        JNull \<Rightarrow> False
      | JUndefined \<Rightarrow> False
      | JString s \<Rightarrow> s \<noteq> []
      | JNumber s \<Rightarrow> s \<notin> set [''0'', ''-0'', ''NaN'']
      | JBoolean b \<Rightarrow> b
      | JBigInt i \<Rightarrow> i \<noteq> 0
      | _ \<Rightarrow> True)"

text \<open>The properties of a value: its own ones first, then the inherited ones.\<close>

definition properties :: "js_value \<Rightarrow> (string \<times> js_prop) list" where
  "properties v =
     (case v of
        JObject cls own inherited str \<Rightarrow> own @ inherited
      | JFunction name src call props \<Rightarrow> props
      | _ \<Rightarrow> [])"

text \<open>\<open>value.name\<close>: a missing property reads as \<open>undefined\<close>, a getter may throw.\<close>

definition getProp :: "js_value \<Rightarrow> string \<Rightarrow> js_error + js_value" where
  "getProp v name =
     (case map_of (properties v) name of
        None \<Rightarrow> Inr JUndefined
      | Some (Data x) \<Rightarrow> Inr x
      | Some (Getter e) \<Rightarrow> Inl e)"

text \<open>\<open>name in value\<close>.\<close>

definition hasProp :: "js_value \<Rightarrow> string \<Rightarrow> bool" where
  "hasProp v name = (map_of (properties v) name \<noteq> None)"

text \<open>Calling a function value without arguments; anything else is not callable.\<close>

definition callFunction :: "js_value \<Rightarrow> js_error + js_value" where
  "callFunction f =
     (case f of JFunction name src call props \<Rightarrow> call | _ \<Rightarrow> Inl TypeError)"

definition andThen :: "js_error + 'a \<Rightarrow> ('a \<Rightarrow> js_error + 'b) \<Rightarrow> js_error + 'b" where
  "andThen r f = (case r of Inl e \<Rightarrow> Inl e | Inr x \<Rightarrow> f x)"

text \<open>The conversion of a primitive to a string; it throws for a symbol.\<close>

definition primitiveToString :: "js_value \<Rightarrow> js_error + string" where
  "primitiveToString v =
     (case v of
        JNull \<Rightarrow> Inr ''null''
      | JUndefined \<Rightarrow> Inr ''undefined''
      | JString s \<Rightarrow> Inr s
      | JNumber s \<Rightarrow> Inr s
      | JBoolean b \<Rightarrow> Inr (if b then ''true'' else ''false'')
      | JBigInt i \<Rightarrow> Inr (show_int i)
      | _ \<Rightarrow> Inl TypeError)"

text \<open>
  \<open>value.toString()\<close> and \<open>value.name\<close> on a function.  A property \<open>toString\<close> or \<open>name\<close>
  in the property list of the function stands before the built-in one: the built-in
  \<open>toString\<close> returns the source text, the built-in \<open>name\<close> is the name of the function.
\<close>

definition functionToString :: "js_value \<Rightarrow> js_error + js_value" where
  "functionToString v =
     (case v of
        JFunction name src call props \<Rightarrow>
          (case map_of props ''toString'' of
             None \<Rightarrow> Inr (JString src)
           | Some (Getter e) \<Rightarrow> Inl e
           | Some (Data f) \<Rightarrow> callFunction f)
      | _ \<Rightarrow> Inl TypeError)"

definition functionName :: "js_value \<Rightarrow> js_error + js_value" where
  "functionName v =
     (case v of
        JFunction name src call props \<Rightarrow>
          (case map_of props ''name'' of
             None \<Rightarrow> Inr (JString name)
           | Some (Getter e) \<Rightarrow> Inl e
           | Some (Data x) \<Rightarrow> Inr x)
      | _ \<Rightarrow> Inr JUndefined)"

text \<open>
  \<open>String(value)\<close>.  For a function it calls \<open>toString\<close> and converts the primitive that
  comes back; \<open>valueOf\<close> is the built-in one, which returns the function itself, so a
  \<open>toString\<close> that is not callable or returns an object ends in a TypeError.
\<close>

definition toStr :: "js_value \<Rightarrow> js_error + string" where
  "toStr v =
     (case v of
        JSymbol s \<Rightarrow> Inr s
      | JFunction name src call props \<Rightarrow> andThen (functionToString v) primitiveToString
      | JObject cls own inherited str \<Rightarrow> str
      | _ \<Rightarrow> primitiveToString v)"

text \<open>The conversion inside a template literal: as \<open>String\<close>, but it throws for a symbol.\<close>

definition templateString :: "js_value \<Rightarrow> js_error + string" where
  "templateString v = (case v of JSymbol s \<Rightarrow> Inl TypeError | _ \<Rightarrow> toStr v)"

fun stringsOf :: "js_value list \<Rightarrow> js_error + string list" where
  "stringsOf [] = Inr []"
| "stringsOf (v # vs) =
     (case toStr v of
        Inl e \<Rightarrow> Inl e
      | Inr s \<Rightarrow> (case stringsOf vs of Inl e \<Rightarrow> Inl e | Inr ss \<Rightarrow> Inr (s # ss)))"

text \<open>
  An object literal \<open>{ k1: v1, ... }\<close> and a fresh array, as values.  The string of an
  array joins the strings of its elements, empty for \<open>null\<close> and \<open>undefined\<close>.
\<close>

definition objectLiteral :: "IMimeBundle \<Rightarrow> js_value" where
  "objectLiteral b =
     JObject (PlainObject (Some ''Object'')) (map (\<lambda>(k, v). (k, Data v)) b) [] (Inr ''[object Object]'')"

definition arrayLiteral :: "js_value list \<Rightarrow> js_value" where
  "arrayLiteral items =
     JObject (ArrayObject items) [] []
       (case stringsOf (map (\<lambda>v. if v = JNull \<or> v = JUndefined then JString '''' else v) items) of
          Inl e \<Rightarrow> Inl e
        | Inr ss \<Rightarrow> Inr (join '','' ss))"

definition escapeChar :: "char \<Rightarrow> string" where
  \<open>escapeChar c =
     (if c = CHR ''&'' then ''&amp;''
      else if c = CHR ''<'' then ''&lt;''
      else if c = CHR ''>'' then ''&gt;''
      else if c = CHR ''"'' then ''&quot;''
      else if c = CHR 0x27 then ''&#39;''
      else [c])\<close>

definition escapeHtml :: "string \<Rightarrow> string" where
  "escapeHtml text = concat (map escapeChar text)"

text \<open>
  \<open>escapeHtml\<close> applied to whatever \<open>toString()\<close> returned: \<open>text.replace(...)\<close> is the
  replacement above on a string, a TypeError on \<open>null\<close>, \<open>undefined\<close> and every value without
  a callable \<open>replace\<close>, and the call of that method otherwise.
\<close>

definition escapeHtmlOf :: "js_value \<Rightarrow> js_error + js_value" where
  "escapeHtmlOf text =
     (case text of
        JString s \<Rightarrow> Inr (JString (escapeHtml s))
      | JNull \<Rightarrow> Inl TypeError
      | JUndefined \<Rightarrow> Inl TypeError
      | _ \<Rightarrow>
          (case getProp text ''replace'' of
             Inl e \<Rightarrow> Inl e
           | Inr f \<Rightarrow> if typeof f = ''function'' then callFunction f else Inl TypeError))"

text \<open>
  One of the six blocks of \<open>getCustomMimeBundle\<close> that call a method and keep a string
  result.  The property is read outside the \<open>try\<close>, the call is inside.  The state is the
  bundle and \<open>hasCustomOutput\<close>.
\<close>

definition stringHook ::
  "js_value \<Rightarrow> string \<Rightarrow> string \<Rightarrow> IMimeBundle \<times> bool \<Rightarrow> js_error + IMimeBundle \<times> bool" where
  "stringHook v method mimeType st =
     (case getProp v method of
        Inl e \<Rightarrow> Inl e
      | Inr f \<Rightarrow>
          if typeof f = ''function''
          then (case callFunction f of
                  Inr (JString s) \<Rightarrow> Inr (AList.update mimeType (JString s) (fst st), True)
                | _ \<Rightarrow> Inr st)
          else Inr st)"

definition stringHooks :: "js_value \<Rightarrow> js_error + IMimeBundle \<times> bool" where
  "stringHooks v =
     andThen (stringHook v ''_toHtml'' ''text/html'' ([], False)) (\<lambda>st.
     andThen (stringHook v ''_toSvg'' ''image/svg+xml'' st) (\<lambda>st.
     andThen (stringHook v ''_toPng'' ''image/png'' st) (\<lambda>st.
     andThen (stringHook v ''_toJpeg'' ''image/jpeg'' st) (\<lambda>st.
     andThen (stringHook v ''_toMarkdown'' ''text/markdown'' st) (\<lambda>st.
     stringHook v ''_toLatex'' ''text/latex'' st)))))"

text \<open>The end of \<open>getCustomMimeBundle\<close>: the plain-text entry.\<close>

definition addTextPlain :: "js_value \<Rightarrow> IMimeBundle \<Rightarrow> js_error + js_value" where
  "addTextPlain v bundle =
     (case getProp v ''inspect'' of
        Inl e \<Rightarrow> Inl e
      | Inr f \<Rightarrow>
          if typeof f = ''function''
          then (case callFunction f of
                  Inr r \<Rightarrow> Inr (objectLiteral (AList.update ''text/plain'' r bundle))
                | Inl e \<Rightarrow>
                    (case toStr v of
                       Inl e' \<Rightarrow> Inl e'
                     | Inr s \<Rightarrow> Inr (objectLiteral (AList.update ''text/plain'' (JString s) bundle))))
          else (case toStr v of
                  Inl e' \<Rightarrow> Inl e'
                | Inr s \<Rightarrow> Inr (objectLiteral (AList.update ''text/plain'' (JString s) bundle))))"

text \<open>The start: \<open>_toMime\<close>.  \<open>Some r\<close> is the object the method returned.\<close>

definition toMimeResult :: "js_value \<Rightarrow> js_error + js_value option" where
  "toMimeResult v =
     (case getProp v ''_toMime'' of
        Inl e \<Rightarrow> Inl e
      | Inr f \<Rightarrow>
          if typeof f = ''function''
          then (case callFunction f of
                  Inr mimeResult \<Rightarrow>
                    if truthy mimeResult \<and> typeof mimeResult = ''object''
                    then Inr (Some mimeResult) else Inr None
                | Inl e \<Rightarrow> Inr None)
          else Inr None)"

definition getCustomMimeBundle :: "js_value \<Rightarrow> js_error + js_value option" where
  "getCustomMimeBundle v =
     (case toMimeResult v of
        Inl e \<Rightarrow> Inl e
      | Inr (Some mimeResult) \<Rightarrow> Inr (Some mimeResult)
      | Inr None \<Rightarrow>
          (case stringHooks v of
             Inl e \<Rightarrow> Inl e
           | Inr (bundle, hasCustomOutput) \<Rightarrow>
               if hasCustomOutput
               then (case addTextPlain v bundle of Inl e \<Rightarrow> Inl e | Inr b \<Rightarrow> Inr (Some b))
               else Inr None))"

text \<open>
  \<open>formatArrayPreview\<close> with \<open>maxItems = 10\<close>.  \<open>String(item)\<close> may throw for a function
  item, and the error leaves \<open>formatArrayPreview\<close>.
\<close>

definition previewItem :: "js_value \<Rightarrow> js_error + string" where
  "previewItem item =
     (case item of
        JNull \<Rightarrow> Inr ''null''
      | JUndefined \<Rightarrow> Inr ''undefined''
      | JString s \<Rightarrow> Inr ([CHR 0x27] @ s @ [CHR 0x27])
      | JObject cls own inherited str \<Rightarrow>
          (case cls of
             ArrayObject xs \<Rightarrow> Inr (''Array('' @ show_nat (length xs) @ '')'')
           | _ \<Rightarrow> Inr ''{...}'')
      | _ \<Rightarrow> toStr item)"

fun previewItems :: "js_value list \<Rightarrow> js_error + string list" where
  "previewItems [] = Inr []"
| "previewItems (v # vs) =
     (case previewItem v of
        Inl e \<Rightarrow> Inl e
      | Inr s \<Rightarrow> (case previewItems vs of Inl e \<Rightarrow> Inl e | Inr ss \<Rightarrow> Inr (s # ss)))"

definition formatArrayPreview :: "js_value list \<Rightarrow> js_error + string" where
  "formatArrayPreview arr =
     (if length arr = 0 then Inr ''[]''
      else (case previewItems (take 10 arr) of
              Inl e \<Rightarrow> Inl e
            | Inr items \<Rightarrow>
                (let suffix = (if length arr > 10
                               then '', ... ('' @ show_nat (length arr) @ '' items)'' else '''')
                 in Inr (''['' @ join '', '' items @ suffix @ '']''))))"

text \<open>
  \<open>formatObjectPreview\<close> with \<open>maxProps = 5\<close>.  \<open>Object.keys\<close> gives the names of the own
  enumerable properties; reading one sits in a \<open>try\<close> of its own.
\<close>

definition previewProperty :: "string \<times> js_prop \<Rightarrow> string" where
  "previewProperty kv =
     (case snd kv of
        Getter e \<Rightarrow> fst kv @ '': <error>''
      | Data val \<Rightarrow>
          fst kv @ '': '' @
          (case val of
             JNull \<Rightarrow> ''null''
           | JUndefined \<Rightarrow> ''undefined''
           | JString s \<Rightarrow>
               [CHR 0x27] @ (if length s > 20 then substring s 0 20 @ ''...'' else s) @ [CHR 0x27]
           | JObject cls own inherited str \<Rightarrow>
               (case cls of
                  ArrayObject xs \<Rightarrow> ''Array('' @ show_nat (length xs) @ '')''
                | _ \<Rightarrow> ''{...}'')
           | JFunction name src call props \<Rightarrow> ''[Function]''
           | JNumber s \<Rightarrow> s
           | JBoolean b \<Rightarrow> (if b then ''true'' else ''false'')
           | JSymbol s \<Rightarrow> s
           | JBigInt i \<Rightarrow> show_int i))"

definition formatObjectPreview :: "string option \<Rightarrow> (string \<times> js_prop) list \<Rightarrow> string" where
  "formatObjectPreview ctor own =
     (if length own = 0 then ''{}''
      else (let prefix = (case ctor of
                            None \<Rightarrow> ''''
                          | Some c \<Rightarrow> if c \<noteq> [] \<and> c \<noteq> ''Object'' then c @ '' '' else '''');
                props = map previewProperty (take 5 own);
                suffix = (if length own > 5 then '', ...'' else '''')
            in prefix @ ''{ '' @ join '', '' props @ suffix @ '' }''))"

definition formatNonSerializableObject :: "string option \<Rightarrow> (string \<times> js_prop) list \<Rightarrow> string" where
  "formatNonSerializableObject ctor own =
     (case ctor of None \<Rightarrow> ''Object'' | Some c \<Rightarrow> if c = [] then ''Object'' else c)
       @ '' { '' @ show_nat (length own) @ '' properties }''"

text \<open>\<open>dataUrl.split(',')[1]\<close>: the piece after the first comma, if there is one.\<close>

definition secondPiece :: "string \<Rightarrow> js_value" where
  "secondPiece s =
     (if CHR '','' \<in> set s
      then JString (takeWhile (\<lambda>c. c \<noteq> CHR '','') (tl (dropWhile (\<lambda>c. c \<noteq> CHR '','') s)))
      else JUndefined)"

definition getDOMElementMimeBundle :: "js_class \<Rightarrow> js_value" where
  \<open>getDOMElementMimeBundle element =
     (case element of
        CanvasElement toDataURL width height outerHTML \<Rightarrow>
          (case toDataURL of
             Inr dataUrl \<Rightarrow>
               objectLiteral
                 [(''image/png'', secondPiece dataUrl),
                  (''text/plain'',
                   JString (''<canvas width="'' @ width @ ''" height="'' @ height @ ''">''))]
           | Inl e \<Rightarrow> objectLiteral [(''text/plain'', JString outerHTML)])
      | HTMLElement outerHTML \<Rightarrow>
          objectLiteral [(''text/html'', JString outerHTML), (''text/plain'', JString outerHTML)]
      | _ \<Rightarrow> objectLiteral [])\<close>

text \<open>
  \<open>Object.fromEntries\<close> on entries whose keys have been turned into strings: each entry
  defines an own property.
\<close>

definition fromEntries :: "(string \<times> js_value) list \<Rightarrow> js_value" where
  "fromEntries es = objectLiteral (foldl (\<lambda>acc (k, v). addOwnProperty k v acc) [] es)"

text \<open>
  The branches of \<open>getMimeBundle\<close> for the built-in classes and for generic objects.
  \<open>toISOString\<close> throws a RangeError on a date whose time value is NaN.
  \<open>formatObjectPreview\<close> does not throw on the values of this model, so the \<open>catch\<close> that
  calls \<open>formatNonSerializableObject\<close> is not entered.
\<close>

definition presentObject ::
  "js_value \<Rightarrow> js_class \<Rightarrow> (string \<times> js_prop) list \<Rightarrow> js_error + string \<Rightarrow> js_error + js_value" where
  "presentObject v cls own str =
     (case cls of
        ErrorObject name message stack \<Rightarrow>
          (if truthy stack
           then Inr (objectLiteral
                  [(''text/plain'', stack),
                   (''application/json'',
                    objectLiteral [(''name'', name), (''message'', message), (''stack'', stack)])])
           else (case str of
                   Inl e \<Rightarrow> Inl e
                 | Inr s \<Rightarrow>
                     Inr (objectLiteral
                       [(''text/plain'', JString s),
                        (''application/json'',
                         objectLiteral [(''name'', name), (''message'', message), (''stack'', stack)])])))
      | DateObject isoString \<Rightarrow>
          (case isoString of
             None \<Rightarrow> Inl RangeError
           | Some t \<Rightarrow>
               Inr (objectLiteral [(''text/plain'', JString t), (''application/json'', JString t)]))
      | RegExpObject s \<Rightarrow> Inr (objectLiteral [(''text/plain'', JString s)])
      | MapObject entries \<Rightarrow>
          (case (stringsOf (map fst entries), stringsOf (map snd entries)) of
             (Inr ks, Inr vs) \<Rightarrow>
               Inr (objectLiteral
                 [(''text/plain'',
                   JString (''Map('' @ show_nat (length entries) @ '') { ''
                     @ join '', '' (map (\<lambda>(k, x). k @ '' => '' @ x) (zip ks vs)) @ '' }'')),
                  (''application/json'', fromEntries (zip ks (map snd entries)))])
           | _ \<Rightarrow>
               Inr (objectLiteral
                 [(''text/plain'', JString (''Map('' @ show_nat (length entries) @ '')''))]))
      | SetObject items \<Rightarrow>
          (case stringsOf items of
             Inr ss \<Rightarrow>
               Inr (objectLiteral
                 [(''text/plain'',
                   JString (''Set('' @ show_nat (length items) @ '') { '' @ join '', '' ss @ '' }'')),
                  (''application/json'', arrayLiteral items)])
           | Inl e \<Rightarrow>
               Inr (objectLiteral
                 [(''text/plain'', JString (''Set('' @ show_nat (length items) @ '')''))]))
      | CanvasElement toDataURL width height outerHTML \<Rightarrow> Inr (getDOMElementMimeBundle cls)
      | HTMLElement outerHTML \<Rightarrow> Inr (getDOMElementMimeBundle cls)
      | ArrayObject items \<Rightarrow>
          (case formatArrayPreview items of
             Inr preview \<Rightarrow>
               Inr (objectLiteral [(''application/json'', v), (''text/plain'', JString preview)])
           | Inl e \<Rightarrow>
               Inr (objectLiteral
                 [(''text/plain'', JString (''Array('' @ show_nat (length items) @ '')''))]))
      | TypedArray ctor len \<Rightarrow>
          Inr (objectLiteral
            [(''text/plain'',
              JString (ctor @ ''('' @ (case len of None \<Rightarrow> ''undefined'' | Some n \<Rightarrow> show_nat n) @ '')''))])
      | PromiseObject \<Rightarrow> Inr (objectLiteral [(''text/plain'', JString ''Promise { <pending> }'')])
      | PlainObject ctor \<Rightarrow>
          (if hasProp v ''data''
           then (case getProp v ''data'' of
                   Inl e \<Rightarrow> Inl e
                 | Inr d \<Rightarrow>
                     if typeof d = ''object'' then Inr d
                     else Inr (objectLiteral
                            [(''application/json'', v),
                             (''text/plain'', JString (formatObjectPreview ctor own))]))
           else Inr (objectLiteral
                  [(''application/json'', v),
                   (''text/plain'', JString (formatObjectPreview ctor own))])))"

text \<open>
  The branch of \<open>getMimeBundle\<close> for functions: \<open>value.toString()\<close>, then
  \<open>value.name || 'anonymous'\<close>, then the two entries of the bundle in their order.
\<close>

definition presentFunction :: "js_value \<Rightarrow> js_error + js_value" where
  \<open>presentFunction v =
     andThen (functionToString v) (\<lambda>funcString.
     andThen (functionName v) (\<lambda>n.
     andThen (templateString (if truthy n then n else JString ''anonymous'')) (\<lambda>name.
     andThen (escapeHtmlOf funcString) (\<lambda>escaped.
     andThen (templateString escaped) (\<lambda>code.
       Inr (objectLiteral
         [(''text/plain'', JString (''[Function: '' @ name @ '']'')),
          (''text/html'',
           JString (''<pre style="margin:0"><code>'' @ code @ ''</code></pre>''))]))))))\<close>

definition getMimeBundle :: "js_value \<Rightarrow> js_error + js_value" where
  \<open>getMimeBundle v =
     (case v of
        JNull \<Rightarrow> Inr (objectLiteral [(''text/plain'', JString ''null'')])
      | JUndefined \<Rightarrow> Inr (objectLiteral [(''text/plain'', JString ''undefined'')])
      | JString s \<Rightarrow>
          if startsWith (trim s) ''<'' \<and> endsWith (trim s) ''>''
          then Inr (objectLiteral [(''text/html'', JString s), (''text/plain'', JString s)])
          else Inr (objectLiteral [(''text/plain'', JString ([CHR 0x27] @ s @ [CHR 0x27]))])
      | JNumber s \<Rightarrow> Inr (objectLiteral [(''text/plain'', JString s)])
      | JBoolean b \<Rightarrow> Inr (objectLiteral [(''text/plain'', JString (if b then ''true'' else ''false''))])
      | JSymbol s \<Rightarrow> Inr (objectLiteral [(''text/plain'', JString s)])
      | JBigInt i \<Rightarrow> Inr (objectLiteral [(''text/plain'', JString (show_int i @ ''n''))])
      | JFunction fname src call props \<Rightarrow> presentFunction v
      | JObject cls own inherited str \<Rightarrow>
          (case getCustomMimeBundle v of
             Inl e \<Rightarrow> Inl e
           | Inr (Some customMime) \<Rightarrow> Inr customMime
           | Inr None \<Rightarrow> presentObject v cls own str))\<close>

text \<open>\<open>key in bundle\<close>, for a value returned as a bundle.\<close>

definition bundleHasKey :: "js_value \<Rightarrow> string \<Rightarrow> bool" where
  "bundleHasKey b key = hasProp b key"

section \<open>Properties of the display helper\<close>

lemma sendDisplay_no_callback:
  "displayCallback h = None \<Longrightarrow> sendDisplay d md h w = (h\<lparr>result := Some d\<rparr>, w)"
  by (simp add: sendDisplay_def)

lemma sendDisplay_callback:
  "displayCallback h = Some cb \<Longrightarrow>
   sendDisplay d md h w =
     (h, cb \<lparr>data = d, metadata = (case md of None \<Rightarrow> [] | Some m \<Rightarrow> m),
              transient = transientOf (displayId h)\<rparr> w)"
  by (simp add: sendDisplay_def)

text \<open>
  Claim C10.  On a helper without an \<open>onDisplay\<close> callback each display method (\<open>html\<close>,
  \<open>svg\<close>, \<open>png\<close>, \<open>jpeg\<close>, \<open>text\<close>, \<open>markdown\<close>, \<open>latex\<close>, \<open>json\<close>, \<open>mime\<close>) stores the
  bundle it produced, so that \<open>getResult\<close> returns it; once a callback is set the method
  hands the display data to the callback and leaves the helper, its stored result included,
  as it was; \<open>clearResult\<close> resets the stored result.  \<open>json\<close> produces its bundle when
  \<open>JSON.stringify\<close> returns, and does nothing at all when it throws.
\<close>

theorem display_methods_store_or_forward:
  "(displayCallback h = None \<longrightarrow>
      getResult (fst (html c md h w)) = Some (html_bundle c) \<and>
      getResult (fst (svg c md h w)) = Some (svg_bundle c) \<and>
      getResult (fst (png c md h w)) = Some (png_bundle c) \<and>
      getResult (fst (jpeg c md h w)) = Some (jpeg_bundle c) \<and>
      getResult (fst (text_display c md h w)) = Some (text_bundle c) \<and>
      getResult (fst (markdown c md h w)) = Some (markdown_bundle c) \<and>
      getResult (fst (latex c md h w)) = Some (latex_bundle c) \<and>
      getResult (fst (mime b md h w)) = Some b \<and>
      (\<forall>t. stringify j = Inr t \<longrightarrow>
         (\<exists>h'. json stringify j md h w = Inr (h', w) \<and> getResult h' = Some (json_bundle j t)))) \<and>
   (\<forall>cb. displayCallback h = Some cb \<longrightarrow>
      html c md h w = (h, cb \<lparr>data = html_bundle c, metadata = (case md of None \<Rightarrow> [] | Some m \<Rightarrow> m), transient = transientOf (displayId h)\<rparr> w) \<and>
      svg c md h w = (h, cb \<lparr>data = svg_bundle c, metadata = (case md of None \<Rightarrow> [] | Some m \<Rightarrow> m), transient = transientOf (displayId h)\<rparr> w) \<and>
      png c md h w = (h, cb \<lparr>data = png_bundle c, metadata = (case md of None \<Rightarrow> [] | Some m \<Rightarrow> m), transient = transientOf (displayId h)\<rparr> w) \<and>
      jpeg c md h w = (h, cb \<lparr>data = jpeg_bundle c, metadata = (case md of None \<Rightarrow> [] | Some m \<Rightarrow> m), transient = transientOf (displayId h)\<rparr> w) \<and>
      text_display c md h w = (h, cb \<lparr>data = text_bundle c, metadata = (case md of None \<Rightarrow> [] | Some m \<Rightarrow> m), transient = transientOf (displayId h)\<rparr> w) \<and>
      markdown c md h w = (h, cb \<lparr>data = markdown_bundle c, metadata = (case md of None \<Rightarrow> [] | Some m \<Rightarrow> m), transient = transientOf (displayId h)\<rparr> w) \<and>
      latex c md h w = (h, cb \<lparr>data = latex_bundle c, metadata = (case md of None \<Rightarrow> [] | Some m \<Rightarrow> m), transient = transientOf (displayId h)\<rparr> w) \<and>
      mime b md h w = (h, cb \<lparr>data = b, metadata = (case md of None \<Rightarrow> [] | Some m \<Rightarrow> m), transient = transientOf (displayId h)\<rparr> w) \<and>
      (\<forall>t. stringify j = Inr t \<longrightarrow>
         json stringify j md h w = Inr (h, cb \<lparr>data = json_bundle j t, metadata = (case md of None \<Rightarrow> [] | Some m \<Rightarrow> m), transient = transientOf (displayId h)\<rparr> w))) \<and>
   (\<forall>e. stringify j = Inl e \<longrightarrow> json stringify j md h w = Inl e) \<and>
   getResult (clearResult h) = None"
proof -
  have none: "getResult (fst (sendDisplay d md h w)) = Some d"
    if "displayCallback h = None" for d
    using that by (simp add: sendDisplay_no_callback getResult_def)
  have some: "sendDisplay d md h w =
      (h, cb \<lparr>data = d, metadata = (case md of None \<Rightarrow> [] | Some m \<Rightarrow> m),
               transient = transientOf (displayId h)\<rparr> w)"
    if "displayCallback h = Some cb" for d cb
    using that by (rule sendDisplay_callback)
  have jnone: "\<exists>h'. json stringify j md h w = Inr (h', w) \<and> getResult h' = Some (json_bundle j t)"
    if "displayCallback h = None" "stringify j = Inr t" for t
    using that by (simp add: json_def sendDisplay_no_callback getResult_def)
  have jsome: "json stringify j md h w =
      Inr (h, cb \<lparr>data = json_bundle j t, metadata = (case md of None \<Rightarrow> [] | Some m \<Rightarrow> m),
                    transient = transientOf (displayId h)\<rparr> w)"
    if "displayCallback h = Some cb" "stringify j = Inr t" for t cb
    using that by (simp add: json_def sendDisplay_callback)
  have jthrow: "json stringify j md h w = Inl e" if "stringify j = Inl e" for e
    using that by (simp add: json_def)
  have clr: "getResult (clearResult h) = None"
    by (simp add: getResult_def clearResult_def)
  show ?thesis
    unfolding html_def svg_def png_def jpeg_def text_display_def markdown_def latex_def mime_def
    using none some jnone jsome jthrow clr by blast
qed

theorem display_methods_store_or_forward_witness:
  "getResult (fst (html ''<b>x</b>'' None (newDisplayHelper None) ([] :: IDisplayData list)))
     = Some [(''text/html'', JString ''<b>x</b>''), (''text/plain'', JString ''<b>x</b>'')] \<and>
   (\<exists>h'. json (\<lambda>v. Inr (JString ''1'')) (JNumber ''1'') None (newDisplayHelper None) ([] :: IDisplayData list)
            = Inr (h', []) \<and>
         getResult h' = Some [(''application/json'', JNumber ''1''), (''text/plain'', JString ''1'')]) \<and>
   text_display ''hi'' None
       (setCallbacks (Some (\<lambda>d w. d # w)) None (newDisplayHelper (Some ''id1''))) []
     = (setCallbacks (Some (\<lambda>d w. d # w)) None (newDisplayHelper (Some ''id1'')),
        [\<lparr>data = [(''text/plain'', JString ''hi'')], metadata = [], transient = Some ''id1''\<rparr>]) \<and>
   getResult (clearResult
     (fst (html ''<b>x</b>'' None (newDisplayHelper None) ([] :: IDisplayData list)))) = None"
proof -
  let ?h0 = "newDisplayHelper None :: IDisplayData list DisplayHelper"
  let ?cb = "\<lambda>(d :: IDisplayData) (w :: IDisplayData list). d # w"
  let ?h1 = "setCallbacks (Some ?cb) None (newDisplayHelper (Some ''id1''))"
  have n: "displayCallback ?h0 = None"
    by (simp add: newDisplayHelper_def)
  have s: "displayCallback ?h1 = Some ?cb"
    by (simp add: setCallbacks_def newDisplayHelper_def)
  have a: "getResult (fst (html ''<b>x</b>'' None ?h0 [])) = Some (html_bundle ''<b>x</b>'')"
    using display_methods_store_or_forward
      [where h = ?h0 and c = "''<b>x</b>''" and md = None and w = "[]"] n
    by blast
  have b: "\<exists>h'. json (\<lambda>v. Inr (JString ''1'')) (JNumber ''1'') None ?h0 [] = Inr (h', []) \<and>
      getResult h' = Some (json_bundle (JNumber ''1'') (JString ''1''))"
    using display_methods_store_or_forward
      [where h = ?h0 and stringify = "\<lambda>v. Inr (JString ''1'')" and j = "JNumber ''1''"
         and md = None and w = "[]"] n
    by blast
  have c: "text_display ''hi'' None ?h1 [] =
      (?h1, ?cb \<lparr>data = text_bundle ''hi'', metadata = (case None of None \<Rightarrow> [] | Some m \<Rightarrow> m),
                   transient = transientOf (displayId ?h1)\<rparr> [])"
    using display_methods_store_or_forward
      [where h = ?h1 and c = "''hi''" and md = None and w = "[]"] s
    by blast
  have d: "getResult (clearResult (fst (html ''<b>x</b>'' None ?h0 []))) = None"
    using display_methods_store_or_forward
      [where h = "fst (html ''<b>x</b>'' None ?h0 [])"]
    by blast
  have t: "transientOf (displayId ?h1) = Some ''id1''"
    by (simp add: transientOf_def setCallbacks_def newDisplayHelper_def)
  show ?thesis
    using a b c d t by (simp add: html_bundle_def json_bundle_def text_bundle_def)
qed

section \<open>Properties of the module-resolution policy\<close>

lemma endsWith_append_same: "endsWith (xs @ p) p"
  by (simp add: endsWith_def)

lemma endsWith_appendI: "endsWith s p \<Longrightarrow> endsWith (xs @ s) p"
  by (auto simp: endsWith_def)

lemma endsWith_append_right: "endsWith s p \<Longrightarrow> endsWith (s @ q) (p @ q)"
  by (auto simp: endsWith_def)

lemma normalizedBaseUrl_slash: "endsWith (normalizedBaseUrl cfg) ''/''"
  by (simp add: normalizedBaseUrl_def endsWith_append_same)

lemma emsExtraEnd_cases:
  "(list_ex (\<lambda>e. endsWith src e) noEmsEnds \<longrightarrow> emsExtraEnd src = '''') \<and>
   (\<not> list_ex (\<lambda>e. endsWith src e) noEmsEnds \<and> endsWith src ''/'' \<longrightarrow> emsExtraEnd src = ''+esm'') \<and>
   (\<not> list_ex (\<lambda>e. endsWith src e) noEmsEnds \<and> \<not> endsWith src ''/'' \<longrightarrow> emsExtraEnd src = ''/+esm'')"
  by (simp add: emsExtraEnd_def)

lemma source_suffix_esm:
  "\<not> list_ex (\<lambda>e. endsWith src e) noEmsEnds \<Longrightarrow> endsWith (src @ emsExtraEnd src) ''/+esm''"
proof (cases "endsWith src ''/''")
  case True
  assume "\<not> list_ex (\<lambda>e. endsWith src e) noEmsEnds"
  with True have "emsExtraEnd src = ''+esm''" by (simp add: emsExtraEnd_def)
  moreover have "endsWith (src @ ''+esm'') (''/'' @ ''+esm'')"
    using True by (rule endsWith_append_right)
  ultimately show ?thesis by simp
next
  case False
  assume "\<not> list_ex (\<lambda>e. endsWith src e) noEmsEnds"
  with False have "emsExtraEnd src = ''/+esm''" by (simp add: emsExtraEnd_def)
  then show ?thesis by (simp add: endsWith_append_same)
qed

text \<open>
  Claim C3, as amended.  A specifier that starts with \<open>http://\<close>, \<open>https://\<close>, \<open>data:\<close>,
  \<open>file://\<close> or \<open>blob:\<close> is returned unchanged, and so is every specifier when magic
  imports are disabled.  Otherwise a specifier that starts with \<open>npm/\<close> or \<open>gh/\<close>, or any
  specifier when auto-npm prefixing is disabled, resolves to the slash-normalized base URL,
  the specifier and the suffix; every other specifier gets \<open>npm/\<close> in front.  The suffix is
  empty when the specifier ends in \<open>.js\<close>, \<open>.mjs\<close>, \<open>.cjs\<close>, \<open>.wasm\<close> or \<open>+esm\<close>; it is
  \<open>+esm\<close> when the specifier ends in a slash and \<open>/+esm\<close> otherwise, so that the
  resolved URL of a specifier without a listed ending always ends in \<open>/+esm\<close>.
\<close>

theorem transformImportSource_policy:
  "(list_ex (\<lambda>s. startsWith src s) noMagicStarts \<longrightarrow> transformImportSource cfg src = src) \<and>
   (\<not> enabled (magicImports cfg) \<longrightarrow> transformImportSource cfg src = src) \<and>
   (enabled (magicImports cfg) \<and> \<not> list_ex (\<lambda>s. startsWith src s) noMagicStarts \<and>
      (startsWith src ''npm/'' \<or> startsWith src ''gh/'' \<or> \<not> enableAutoNpm (magicImports cfg)) \<longrightarrow>
      transformImportSource cfg src = normalizedBaseUrl cfg @ src @ emsExtraEnd src) \<and>
   (enabled (magicImports cfg) \<and> \<not> list_ex (\<lambda>s. startsWith src s) noMagicStarts \<and>
      \<not> (startsWith src ''npm/'' \<or> startsWith src ''gh/'' \<or> \<not> enableAutoNpm (magicImports cfg)) \<longrightarrow>
      transformImportSource cfg src = normalizedBaseUrl cfg @ ''npm/'' @ src @ emsExtraEnd src) \<and>
   endsWith (normalizedBaseUrl cfg) ''/'' \<and>
   (list_ex (\<lambda>e. endsWith src e) noEmsEnds \<longrightarrow> emsExtraEnd src = '''') \<and>
   (\<not> list_ex (\<lambda>e. endsWith src e) noEmsEnds \<and> endsWith src ''/'' \<longrightarrow>
      emsExtraEnd src = ''+esm'') \<and>
   (\<not> list_ex (\<lambda>e. endsWith src e) noEmsEnds \<and> \<not> endsWith src ''/'' \<longrightarrow>
      emsExtraEnd src = ''/+esm'') \<and>
   (enabled (magicImports cfg) \<and> \<not> list_ex (\<lambda>s. startsWith src s) noMagicStarts \<and>
      \<not> list_ex (\<lambda>e. endsWith src e) noEmsEnds \<longrightarrow>
      endsWith (transformImportSource cfg src) ''/+esm'')"
proof -
  have esm: "endsWith (transformImportSource cfg src) ''/+esm''"
    if "enabled (magicImports cfg)" "\<not> list_ex (\<lambda>s. startsWith src s) noMagicStarts"
       "\<not> list_ex (\<lambda>e. endsWith src e) noEmsEnds"
  proof -
    have "endsWith (xs @ src @ emsExtraEnd src) ''/+esm''" for xs
      using source_suffix_esm [OF that(3)] by (rule endsWith_appendI)
    from this [of "normalizedBaseUrl cfg"] this [of "normalizedBaseUrl cfg @ ''npm/''"]
    show ?thesis using that(1,2) by (simp add: transformImportSource_def)
  qed
  show ?thesis
    using esm emsExtraEnd_cases [of src] normalizedBaseUrl_slash [of cfg]
    by (simp add: transformImportSource_def)
qed

theorem transformImportSource_policy_witness:
  "transformImportSource defaultConfig ''https://cdn.example/x.js'' = ''https://cdn.example/x.js'' \<and>
   transformImportSource (defaultConfig\<lparr>magicImports := (magicImports defaultConfig)\<lparr>enabled := False\<rparr>\<rparr>) ''lodash'' = ''lodash'' \<and>
   transformImportSource defaultConfig ''gh/user/repo/x.js'' = ''https://cdn.jsdelivr.net/gh/user/repo/x.js'' \<and>
   transformImportSource defaultConfig ''lodash'' = ''https://cdn.jsdelivr.net/npm/lodash/+esm'' \<and>
   transformImportSource defaultConfig ''lodash/'' = ''https://cdn.jsdelivr.net/npm/lodash/+esm'' \<and>
   endsWith (transformImportSource defaultConfig ''lodash'') ''/+esm''"
proof -
  let ?off = "defaultConfig\<lparr>magicImports := (magicImports defaultConfig)\<lparr>enabled := False\<rparr>\<rparr>"
  have ev: "enabled (magicImports defaultConfig)" "enableAutoNpm (magicImports defaultConfig)"
    "\<not> enabled (magicImports ?off)"
    "normalizedBaseUrl defaultConfig = ''https://cdn.jsdelivr.net/''"
    by (simp_all add: defaultConfig_def normalizedBaseUrl_def endsWith_def)
  have st: "list_ex (\<lambda>s. startsWith ''https://cdn.example/x.js'' s) noMagicStarts"
    "\<not> list_ex (\<lambda>s. startsWith ''gh/user/repo/x.js'' s) noMagicStarts"
    "startsWith ''gh/user/repo/x.js'' ''gh/''"
    "\<not> list_ex (\<lambda>s. startsWith ''lodash'' s) noMagicStarts"
    "\<not> startsWith ''lodash'' ''npm/''" "\<not> startsWith ''lodash'' ''gh/''"
    "\<not> list_ex (\<lambda>s. startsWith ''lodash/'' s) noMagicStarts"
    "\<not> startsWith ''lodash/'' ''npm/''" "\<not> startsWith ''lodash/'' ''gh/''"
    by (simp_all add: noMagicStarts_def startsWith_def)
  have en: "list_ex (\<lambda>e. endsWith ''gh/user/repo/x.js'' e) noEmsEnds"
    "\<not> list_ex (\<lambda>e. endsWith ''lodash'' e) noEmsEnds" "\<not> endsWith ''lodash'' ''/''"
    "\<not> list_ex (\<lambda>e. endsWith ''lodash/'' e) noEmsEnds" "endsWith ''lodash/'' ''/''"
    by (simp_all add: noEmsEnds_def endsWith_def)
  have a: "transformImportSource defaultConfig ''https://cdn.example/x.js'' = ''https://cdn.example/x.js''"
    using transformImportSource_policy [of "''https://cdn.example/x.js''" defaultConfig] st(1)
    by blast
  have b: "transformImportSource ?off ''lodash'' = ''lodash''"
    using transformImportSource_policy [of "''lodash''" ?off] ev(3) by blast
  have c: "transformImportSource defaultConfig ''gh/user/repo/x.js''
      = normalizedBaseUrl defaultConfig @ ''gh/user/repo/x.js'' @ emsExtraEnd ''gh/user/repo/x.js''"
    "emsExtraEnd ''gh/user/repo/x.js'' = []"
    using transformImportSource_policy [of "''gh/user/repo/x.js''" defaultConfig] ev(1) st(2,3) en(1)
    by blast+
  have d: "transformImportSource defaultConfig ''lodash''
      = normalizedBaseUrl defaultConfig @ ''npm/'' @ ''lodash'' @ emsExtraEnd ''lodash''"
    "emsExtraEnd ''lodash'' = ''/+esm''"
    "endsWith (transformImportSource defaultConfig ''lodash'') ''/+esm''"
    using transformImportSource_policy [of "''lodash''" defaultConfig] ev(1,2) st(4,5,6) en(2,3)
    by blast+
  have e: "transformImportSource defaultConfig ''lodash/''
      = normalizedBaseUrl defaultConfig @ ''npm/'' @ ''lodash/'' @ emsExtraEnd ''lodash/''"
    "emsExtraEnd ''lodash/'' = ''+esm''"
    using transformImportSource_policy [of "''lodash/''" defaultConfig] ev(1,2) st(7,8,9) en(4,5)
    by blast+
  show ?thesis
    using a b c d e ev(4) by simp
qed

text \<open>
  The claim as stated gives a specifier that ends in a slash no suffix.  The code appends
  \<open>+esm\<close> to it.
\<close>

theorem transformImportSource_trailing_slash_counterexample:
  "transformImportSource defaultConfig ''lodash/'' = ''https://cdn.jsdelivr.net/npm/lodash/+esm'' \<and>
   transformImportSource defaultConfig ''lodash/''
     \<noteq> normalizedBaseUrl defaultConfig @ ''npm/'' @ ''lodash/'' @ suffixRule_spec ''lodash/''"
  by (simp add: transformImportSource_def defaultConfig_def noMagicStarts_def startsWith_def
      normalizedBaseUrl_def endsWith_def emsExtraEnd_def noEmsEnds_def suffixRule_spec_def)

section \<open>Properties of the source rewriter\<close>

text \<open>
  Claim C2.  The claim has \<open>const {a, b: c} = obj;\<close> export the bindings \<open>a\<close> and \<open>c\<close>.
  On the tree of this declaration the export pass emits an assignment for the key \<open>b\<close>:
  only the key \<open>default\<close> is followed to the name it is bound to.
\<close>

theorem addToGlobalScope_renamed_property:
  \<open>addToGlobalScope
     [Node (VariableDeclaration
        [ObjectPattern [Property (Some ''a'') (Identifier ''a''),
                        Property (Some ''b'') (Identifier ''c'')]]) 0 22]
   = Inr ''globalThis["a"] = a;\<newline>globalThis["b"] = b;''\<close>
  by (simp add: addToGlobalScope_def nodeCode_def declarationCode_def propertyCode_def
      addToGlobalThisCode_def template_def)

lemma semicolonFound_iff:
  "semicolonFound code i e \<longleftrightarrow> (\<exists>j. i \<le> j \<and> j < e \<and> j < length code \<and> code ! j = CHR '';'')"
proof (induction code i e rule: semicolonFound.induct)
  case (1 code i restEnd)
  show ?case
  proof (cases "i < restEnd")
    case False
    then show ?thesis by (subst semicolonFound.simps) auto
  next
    case True
    show ?thesis
    proof (cases "i < length code \<and> code ! i = CHR '';''")
      case t: True
      then show ?thesis using True by (subst semicolonFound.simps) auto
    next
      case f: False
      have "semicolonFound code i restEnd = semicolonFound code (Suc i) restEnd"
        using True f by (subst semicolonFound.simps) auto
      also have "\<dots> \<longleftrightarrow> (\<exists>j. Suc i \<le> j \<and> j < restEnd \<and> j < length code \<and> code ! j = CHR '';'')"
        using 1 True f by blast
      also have "\<dots> \<longleftrightarrow> (\<exists>j. i \<le> j \<and> j < restEnd \<and> j < length code \<and> code ! j = CHR '';'')"
        using f by (metis Suc_leD Suc_leI le_neq_implies_less)
      finally show ?thesis .
    qed
  qed
qed

text \<open>
  Claim C8.  \<open>extractImports\<close> leaves the executor as it found it, a second call on the
  same text returns what the first call returned, and for a text the parser rejects the
  result is the empty list, not an error.
\<close>

theorem extractImports_idempotent:
  "snd (extractImports parseScript this code) = this \<and>
   extractImports parseScript (snd (extractImports parseScript this code)) code
     = extractImports parseScript this code \<and>
   (\<forall>m. parseScript code = Inl m \<longrightarrow> fst (extractImports parseScript this code) = [])"
proof -
  have s: "snd (extractImports parseScript this code) = this"
    by (simp add: extractImports_def split: sum.splits)
  have f: "fst (extractImports parseScript this code) = []" if "parseScript code = Inl m" for m
    using that by (simp add: extractImports_def)
  show ?thesis using s f by simp
qed

theorem extractImports_idempotent_witness:
  "fst (extractImports (\<lambda>c. Inl ''Unexpected token'')
          \<lparr>config = defaultConfig, globalScope = ()\<rparr> ''import {'') = [] \<and>
   snd (extractImports (\<lambda>c. Inl ''Unexpected token'')
          \<lparr>config = defaultConfig, globalScope = ()\<rparr> ''import {'')
     = \<lparr>config = defaultConfig, globalScope = ()\<rparr>"
  using extractImports_idempotent
    [of "\<lambda>c. Inl ''Unexpected token''" "\<lparr>config = defaultConfig, globalScope = ()\<rparr>" "''import {''"]
  by simp

lemma handleLastStatement_capture:
  assumes "ast \<noteq> []" "stmt (last ast) = ExpressionStatement ty s e" "ty \<noteq> AssignmentExpression"
    "\<forall>i. e \<le> i \<and> i < nend (last ast) \<and> i < length code \<longrightarrow> code ! i \<noteq> CHR '';''"
  shows "handleLastStatement code ast =
    \<lparr>lastWithReturn = True,
     modifiedUserCode = substring code 0 s @ substringFrom code e,
     extraReturnCode = ''return ['' @ substring code s e @ ''];''\<rparr>"
proof -
  have "\<not> semicolonFound code e (nend (last ast))"
    using assms(4) by (auto simp: semicolonFound_iff)
  then show ?thesis
    using assms(1,2,3) by (simp add: handleLastStatement_def)
qed

lemma handleLastStatement_no_capture:
  assumes "\<forall>ty s e. stmt (last ast) = ExpressionStatement ty s e \<longrightarrow>
      ty = AssignmentExpression \<or>
      (\<exists>i. e \<le> i \<and> i < nend (last ast) \<and> i < length code \<and> code ! i = CHR '';'')"
  shows "handleLastStatement code ast =
    \<lparr>lastWithReturn = False, modifiedUserCode = code, extraReturnCode = ''''\<rparr>"
proof (cases "stmt (last ast)")
  case (ExpressionStatement ty s e)
  with assms have "ty = AssignmentExpression \<or> semicolonFound code e (nend (last ast))"
    by (auto simp: semicolonFound_iff)
  then show ?thesis
    using ExpressionStatement by (auto simp: handleLastStatement_def)
qed (simp_all add: handleLastStatement_def)

text \<open>
  Claim C1.  The claim has \<open>makeAsyncFromCode\<close> return \<open>withReturn = true\<close>, with the trailing
  code \<open>return [<expression text>];\<close>, for every source that ends in an unterminated
  expression.  For \<open>const {...r} = o\<close> followed by \<open>1+1\<close> on the next line the implicit-result
  pass would capture \<open>1+1\<close>, but the export pass, which runs first, reads \<open>prop.key.name\<close> of
  the rest element and \<open>makeAsyncFromCode\<close> throws a TypeError.  For \<open>(1+1)\<close> the range of the
  expression lies inside the parentheses, the pass cuts out \<open>1+1\<close> and leaves \<open>()\<close> in the
  text, and that is the body handed to the \<open>Function\<close> constructor.
\<close>

theorem makeAsyncFromCode_fails_on_captured_expression:
  "handleLastStatement ''const {...r} = o\<newline>1+1''
     [Node (VariableDeclaration [ObjectPattern [RestMember (Identifier ''r'')]]) 0 16,
      Node (ExpressionStatement OtherExpression 17 20) 17 20]
     = \<lparr>lastWithReturn = True, modifiedUserCode = ''const {...r} = o\<newline>'',
        extraReturnCode = ''return [1+1];''\<rparr> \<and>
   makeAsyncFromCode defaultConfig
     (\<lambda>c. Inr [Node (VariableDeclaration [ObjectPattern [RestMember (Identifier ''r'')]]) 0 16,
                Node (ExpressionStatement OtherExpression 17 20) 17 20])
     (Inr :: string \<Rightarrow> js_error + string)
     ''const {...r} = o\<newline>1+1''
     = Inl TypeError \<and>
   assembleCode defaultConfig ''(1+1)'' [Node (ExpressionStatement OtherExpression 1 4) 0 5]
     = Inr (True, ''\<newline>      ()\<newline>      \<newline>      return [1+1];\<newline>    '')"
  by (simp add: makeAsyncFromCode_def assembleCode_def addToGlobalScope_def nodeCode_def
      declarationCode_def propertyCode_def handleLastStatement_def semicolonFound.simps
      substring_def substringFrom_def rewriteImportStatements_def rewriteImportNode_def)

section \<open>Properties of the completeness check\<close>

lemma nextIndent_function_f: "nextIndent ''function f() {'' = ''  ''"
  by (simp add: nextIndent_def opensBlock_def trim_def isWhiteSpace_def)

text \<open>
  Claim C7.  The claim has \<open>isComplete\<close> answer \<open>incomplete\<close>, with an indent of two spaces,
  for the text \<open>function f() {\<close>.  The parser rejects that text with a message that names
  the token \<open>end of source\<close>; none of the five patterns matches it, so \<open>isComplete\<close> answers
  \<open>invalid\<close> and suggests no indent.
\<close>

theorem isComplete_truncated_function_invalid:
  "\<not> matchesIncompletePattern endOfSourceMessage \<and>
   isComplete (\<lambda>code. Inl endOfSourceMessage) ''function f() {''
     = \<lparr>status = Invalid, indent = None\<rparr>"
proof -
  have m: "\<not> matchesIncompletePattern endOfSourceMessage"
    by (simp add: matchesIncompletePattern_def incompletePatterns_def regexTest_def matchesAt_def
        asciiLower_def isLineTerminator_def endOfSourceMessage_def char_of_def bit_simps)
  have t: "trim ''function f() {'' \<noteq> []"
    by (simp add: trim_def isWhiteSpace_def)
  show ?thesis
    using m t by (simp add: isComplete_def)
qed

section \<open>Properties of completion\<close>

lemma foldl_preserves:
  assumes "\<And>s x. I s \<Longrightarrow> I (f s x)" "I s"
  shows "I (foldl f s xs)"
  using assms(2) by (induction xs arbitrary: s) (auto intro: assms(1))

lemma addMatching_ok: "collectedOk prefix st \<Longrightarrow> collectedOk prefix (addMatching prefix props st)"
  unfolding addMatching_def
proof (rule foldl_preserves [where I = "collectedOk prefix"])
  fix s :: collected and x
  assume "collectedOk prefix s"
  then show "collectedOk prefix
      ((\<lambda>(seen, matches) prop.
          if prop \<notin> seen \<and> startsWith prop prefix
          then (insert prop seen, matches @ [prop]) else (seen, matches)) s x)"
    by (cases s) (auto simp: collectedOk_def)
qed

lemma addCaseInsensitive_ok:
  "collectedOk prefix st \<Longrightarrow>
   collectedOk prefix (addCaseInsensitive prefix (toLowerCase prefix) props st)"
  unfolding addCaseInsensitive_def
proof (rule foldl_preserves [where I = "collectedOk prefix"])
  fix s :: collected and x
  assume "collectedOk prefix s"
  then show "collectedOk prefix
      ((\<lambda>(seen, matches) prop.
          if prop \<notin> seen \<and> startsWith (toLowerCase prop) (toLowerCase prefix)
               \<and> \<not> startsWith prop prefix
          then (insert prop seen, matches @ [prop]) else (seen, matches)) s x)"
    by (cases s) (auto simp: collectedOk_def)
qed

lemma walkExact_ok: "collectedOk prefix st \<Longrightarrow> collectedOk prefix (walkExact prefix r st)"
proof (induction prefix r st rule: walkExact.induct)
  case (1 prefix own forIn proto st)
  define st' where "st' = (case own of Inl e \<Rightarrow> st
              | Inr ownProps \<Rightarrow> addMatching prefix forIn (addMatching prefix ownProps st))"
  have ok: "collectedOk prefix st'"
    unfolding st'_def using "1.prems" by (cases own) (simp_all add: addMatching_ok)
  have eq: "walkExact prefix (Reflected own forIn proto) st =
      (case proto of Inl e \<Rightarrow> st' | Inr None \<Rightarrow> st'
       | Inr (Some parent) \<Rightarrow> walkExact prefix parent st')"
    unfolding st'_def by (simp add: Let_def)
  show ?case
  proof (cases proto)
    case (Inl e)
    then show ?thesis using ok eq by simp
  next
    case (Inr p)
    show ?thesis
    proof (cases p)
      case None
      then show ?thesis using ok eq Inr by simp
    next
      case (Some parent)
      have "collectedOk prefix (walkExact prefix parent st')"
        using "1.IH" [OF st'_def Inr Some ok] .
      then show ?thesis using eq Inr Some by simp
    qed
  qed
qed

lemma walkCaseInsensitive_ok':
  "collectedOk prefix st \<Longrightarrow> lowerPrefix = toLowerCase prefix \<Longrightarrow>
   collectedOk prefix (walkCaseInsensitive prefix lowerPrefix r st)"
proof (induction prefix lowerPrefix r st rule: walkCaseInsensitive.induct)
  case (1 prefix lowerPrefix own forIn proto st)
  define st' where "st' = (case own of Inl e \<Rightarrow> st
              | Inr ownProps \<Rightarrow> addCaseInsensitive prefix lowerPrefix ownProps st)"
  have ok: "collectedOk prefix st'"
    unfolding st'_def using "1.prems" by (cases own) (simp_all add: addCaseInsensitive_ok)
  have eq: "walkCaseInsensitive prefix lowerPrefix (Reflected own forIn proto) st =
      (case proto of Inl e \<Rightarrow> st' | Inr None \<Rightarrow> st'
       | Inr (Some parent) \<Rightarrow> walkCaseInsensitive prefix lowerPrefix parent st')"
    unfolding st'_def by (simp add: Let_def)
  show ?case
  proof (cases proto)
    case (Inl e)
    then show ?thesis using ok eq by simp
  next
    case (Inr p)
    show ?thesis
    proof (cases p)
      case None
      then show ?thesis using ok eq Inr by simp
    next
      case (Some parent)
      have "collectedOk prefix (walkCaseInsensitive prefix lowerPrefix parent st')"
        using "1.IH" [OF st'_def Inr Some ok "1.prems"(2)] .
      then show ?thesis using eq Inr Some by simp
    qed
  qed
qed

lemma walkCaseInsensitive_ok:
  "collectedOk prefix st \<Longrightarrow>
   collectedOk prefix (walkCaseInsensitive prefix (toLowerCase prefix) r st)"
  by (rule walkCaseInsensitive_ok') simp_all

lemma collectMatches_ok:
  "distinct (collectMatches obj prefix) \<and>
   (\<forall>m \<in> set (collectMatches obj prefix).
      startsWith m prefix \<or> startsWith (toLowerCase m) (toLowerCase prefix))"
proof (cases obj)
  case None
  then show ?thesis by (simp add: collectMatches_def)
next
  case (Some r)
  have "collectedOk prefix ({}, [])"
    by (simp add: collectedOk_def)
  then have "collectedOk prefix
      (walkCaseInsensitive prefix (toLowerCase prefix) r (walkExact prefix r ({}, [])))"
    by (intro walkCaseInsensitive_ok walkExact_ok)
  then show ?thesis
    using Some by (simp add: collectMatches_def collectedOk_def)
qed

lemma set_sortInsert: "set (sortInsert cmp x ys) = insert x (set ys)"
  by (induction ys) auto

lemma distinct_sortInsert: "distinct (sortInsert cmp x ys) \<longleftrightarrow> x \<notin> set ys \<and> distinct ys"
  by (induction ys) (auto simp: set_sortInsert)

lemma set_sortWith: "set (sortWith cmp xs) = set xs"
  by (induction xs) (auto simp: sortWith_def set_sortInsert)

lemma distinct_sortWith: "distinct (sortWith cmp xs) \<longleftrightarrow> distinct xs"
proof (induction xs)
  case Nil
  then show ?case by (simp add: sortWith_def)
next
  case (Cons x xs)
  have "sortWith cmp (x # xs) = sortInsert cmp x (sortWith cmp xs)"
    by (simp add: sortWith_def)
  then show ?case
    using Cons by (simp add: distinct_sortInsert set_sortWith)
qed

lemma sorted_sortInsert:
  assumes "consistentComparator cmp" "sorted_wrt (\<lambda>a b. cmp a b \<le> 0) ys"
  shows "sorted_wrt (\<lambda>a b. cmp a b \<le> 0) (sortInsert cmp x ys)"
  using assms(2)
proof (induction ys)
  case Nil
  then show ?case by simp
next
  case (Cons y ys)
  have tot: "cmp a b \<le> 0 \<or> cmp b a \<le> 0" for a b
    using assms(1) unfolding consistentComparator_def by blast
  have tr: "cmp a b \<le> 0 \<Longrightarrow> cmp b c \<le> 0 \<Longrightarrow> cmp a c \<le> 0" for a b c
    using assms(1) unfolding consistentComparator_def by blast
  have tail: "sorted_wrt (\<lambda>a b. cmp a b \<le> 0) ys" and head: "\<forall>z \<in> set ys. cmp y z \<le> 0"
    using Cons.prems by simp_all
  show ?case
  proof (cases "cmp x y \<le> 0")
    case True
    have "cmp x z \<le> 0" if "z \<in> set ys" for z
      using tr [OF True] head that by blast
    then show ?thesis
      using True Cons.prems by simp
  next
    case False
    then have yx: "cmp y x \<le> 0" using tot [of x y] by simp
    have "sorted_wrt (\<lambda>a b. cmp a b \<le> 0) (sortInsert cmp x ys)"
      using Cons.IH tail by simp
    moreover have "\<forall>z \<in> set (sortInsert cmp x ys). cmp y z \<le> 0"
      using head yx by (simp add: set_sortInsert)
    ultimately show ?thesis
      using False by simp
  qed
qed

lemma sorted_sortWith:
  assumes "consistentComparator cmp"
  shows "sorted_wrt (\<lambda>a b. cmp a b \<le> 0) (sortWith cmp xs)"
proof (induction xs)
  case Nil
  then show ?case by (simp add: sortWith_def)
next
  case (Cons x xs)
  have "sortWith cmp (x # xs) = sortInsert cmp x (sortWith cmp xs)"
    by (simp add: sortWith_def)
  then show ?case
    using Cons sorted_sortInsert [OF assms] by simp
qed

lemma compareMatches_consistent:
  assumes "consistentComparator localeCompare"
  shows "consistentComparator (compareMatches localeCompare prefix)"
proof -
  have tot: "localeCompare a b \<le> 0 \<or> localeCompare b a \<le> 0" for a b
    using assms unfolding consistentComparator_def by blast
  have tr: "localeCompare a b \<le> 0 \<Longrightarrow> localeCompare b c \<le> 0 \<Longrightarrow> localeCompare a c \<le> 0" for a b c
    using assms unfolding consistentComparator_def by blast
  show ?thesis
    unfolding consistentComparator_def
  proof (intro conjI allI impI)
    fix a b
    show "compareMatches localeCompare prefix a b \<le> 0 \<or> compareMatches localeCompare prefix b a \<le> 0"
      using tot [of a b] by (auto simp: compareMatches_def Let_def)
  next
    fix a b c
    assume "compareMatches localeCompare prefix a b \<le> 0 \<and> compareMatches localeCompare prefix b c \<le> 0"
    then show "compareMatches localeCompare prefix a c \<le> 0"
      using tr [of a b c] by (auto simp: compareMatches_def Let_def split: if_splits)
  qed
qed

lemma sorted_wrt_partition:
  assumes "sorted_wrt R xs" "\<And>a b. R a b \<Longrightarrow> Q b \<Longrightarrow> Q a"
  shows "xs = filter Q xs @ filter (\<lambda>x. \<not> Q x) xs"
  using assms(1)
proof (induction xs)
  case Nil
  then show ?case by simp
next
  case (Cons x xs)
  show ?case
  proof (cases "Q x")
    case True
    then show ?thesis using Cons by simp
  next
    case False
    have "\<forall>y \<in> set xs. \<not> Q y"
      using Cons.prems False assms(2) by auto
    then have "filter Q xs = []" "filter (\<lambda>x. \<not> Q x) xs = xs"
      by (simp_all add: filter_empty_conv filter_id_conv)
    then show ?thesis using False by simp
  qed
qed

lemma sorted_wrt_filter_weaken:
  assumes "sorted_wrt R xs" "\<And>a b. P a \<Longrightarrow> P b \<Longrightarrow> R a b \<Longrightarrow> S a b"
  shows "sorted_wrt S (filter P xs)"
  using assms(1)
proof (induction xs)
  case Nil
  then show ?case by simp
next
  case (Cons x xs)
  then show ?case using assms(2) by auto
qed

lemma example_matches:
  "collectMatches (Some exampleRoot) ''ab'' = [''abc'', ''abd'', ''Abc'']"
  by (simp add: collectMatches_def exampleRoot_def addMatching_def addCaseInsensitive_def
      startsWith_def toLowerCase_def lowerChar_def char_of_def bit_simps)

lemma example_sorted:
  "set (take 2 (getAllProperties localeCompare (Some exampleRoot) ''ab'')) = {''abc'', ''abd''} \<and>
   drop 2 (getAllProperties localeCompare (Some exampleRoot) ''ab'') = [''Abc'']"
  by (cases "localeCompare ''abc'' ''abd'' \<le> 0")
    (auto simp: getAllProperties_def example_matches sortWith_def compareMatches_def Let_def startsWith_def)

lemma compareCodeUnits_consistent: "consistentComparator compareCodeUnits"
  unfolding consistentComparator_def compareCodeUnits_def
  by (auto split: if_splits)

text \<open>
  Claim C6.  For every root object and prefix the list of matches has no duplicates and
  splits into the names that start with the prefix, followed by the names that match it
  only up to case; each of the two parts is in the order of \<open>localeCompare\<close>, the platform's
  comparison of strings, which is taken to be a consistent comparator.  For a root object
  with the own properties \<open>abc\<close>, \<open>abd\<close> and \<open>Abc\<close> and the prefix \<open>ab\<close> the result
  lists \<open>abc\<close> and \<open>abd\<close> first and \<open>Abc\<close> last.
\<close>

theorem getAllProperties_unique_sorted:
  assumes "consistentComparator localeCompare"
  shows "distinct (getAllProperties localeCompare obj prefix) \<and>
    (\<exists>exact others.
       getAllProperties localeCompare obj prefix = exact @ others \<and>
       (\<forall>m \<in> set exact. startsWith m prefix) \<and>
       (\<forall>m \<in> set others. \<not> startsWith m prefix \<and> startsWith (toLowerCase m) (toLowerCase prefix)) \<and>
       sorted_wrt (\<lambda>a b. localeCompare a b \<le> 0) exact \<and>
       sorted_wrt (\<lambda>a b. localeCompare a b \<le> 0) others) \<and>
    set (take 2 (getAllProperties localeCompare (Some exampleRoot) ''ab'')) = {''abc'', ''abd''} \<and>
    drop 2 (getAllProperties localeCompare (Some exampleRoot) ''ab'') = [''Abc'']"
proof -
  let ?cmp = "compareMatches localeCompare prefix"
  let ?r = "getAllProperties localeCompare obj prefix"
  let ?Q = "\<lambda>m. startsWith m prefix"
  have r: "?r = sortWith ?cmp (collectMatches obj prefix)"
    by (simp add: getAllProperties_def)
  have d: "distinct ?r"
    using collectMatches_ok [of obj prefix] by (simp add: r distinct_sortWith)
  have mem: "\<forall>m \<in> set ?r. startsWith m prefix \<or> startsWith (toLowerCase m) (toLowerCase prefix)"
    using collectMatches_ok [of obj prefix] by (simp add: r set_sortWith)
  have s: "sorted_wrt (\<lambda>a b. ?cmp a b \<le> 0) ?r"
    unfolding r by (rule sorted_sortWith [OF compareMatches_consistent [OF assms]])
  have bk: "?Q a" if "?cmp a b \<le> 0" "?Q b" for a b
    using that by (auto simp: compareMatches_def Let_def split: if_splits)
  have parts: "?r = filter ?Q ?r @ filter (\<lambda>m. \<not> ?Q m) ?r"
    using s bk by (rule sorted_wrt_partition)
  have s1: "sorted_wrt (\<lambda>a b. localeCompare a b \<le> 0) (filter ?Q ?r)"
    using s by (rule sorted_wrt_filter_weaken) (simp add: compareMatches_def Let_def)
  have s2: "sorted_wrt (\<lambda>a b. localeCompare a b \<le> 0) (filter (\<lambda>m. \<not> ?Q m) ?r)"
    using s by (rule sorted_wrt_filter_weaken) (simp add: compareMatches_def Let_def)
  have m1: "\<forall>m \<in> set (filter ?Q ?r). startsWith m prefix"
    by simp
  have m2: "\<forall>m \<in> set (filter (\<lambda>m. \<not> ?Q m) ?r).
      \<not> startsWith m prefix \<and> startsWith (toLowerCase m) (toLowerCase prefix)"
    using mem by auto
  have ex: "\<exists>exact others.
       ?r = exact @ others \<and>
       (\<forall>m \<in> set exact. startsWith m prefix) \<and>
       (\<forall>m \<in> set others. \<not> startsWith m prefix \<and> startsWith (toLowerCase m) (toLowerCase prefix)) \<and>
       sorted_wrt (\<lambda>a b. localeCompare a b \<le> 0) exact \<and>
       sorted_wrt (\<lambda>a b. localeCompare a b \<le> 0) others"
    using parts m1 m2 s1 s2 by blast
  show ?thesis
    using d ex example_sorted [of localeCompare] by blast
qed

theorem getAllProperties_unique_sorted_witness:
  "consistentComparator compareCodeUnits \<and>
   getAllProperties compareCodeUnits (Some exampleRoot) ''ab'' = [''abc'', ''abd'', ''Abc''] \<and>
   distinct (getAllProperties compareCodeUnits (Some exampleRoot) ''ab'')"
proof -
  have c: "consistentComparator compareCodeUnits"
    by (rule compareCodeUnits_consistent)
  have v: "getAllProperties compareCodeUnits (Some exampleRoot) ''ab'' = [''abc'', ''abd'', ''Abc'']"
    by (simp add: getAllProperties_def example_matches sortWith_def compareMatches_def Let_def
        startsWith_def compareCodeUnits_def)
  have "distinct (getAllProperties compareCodeUnits (Some exampleRoot) ''ab'')"
    using getAllProperties_unique_sorted [OF c, of "Some exampleRoot" "''ab''"] by blast
  then show ?thesis using c v by simp
qed

section \<open>Properties of the value presenter\<close>

lemma hasProp_objectLiteral: "hasProp (objectLiteral b) key \<longleftrightarrow> key \<in> fst ` set b"
proof -
  have "fst ` set (map (\<lambda>(k, v). (k, Data v)) b) = fst ` set b"
    by (induction b) auto
  then show ?thesis
    by (simp add: hasProp_def properties_def objectLiteral_def map_of_eq_None_iff)
qed

lemma bundleHasKey_literal:
  "bundleHasKey (objectLiteral b) key \<longleftrightarrow> key \<in> fst ` set b"
  by (simp add: bundleHasKey_def hasProp_objectLiteral)

lemma bundleHasKey_update:
  "bundleHasKey (objectLiteral (AList.update key x b)) key"
  by (simp add: bundleHasKey_literal dom_update)

lemma addTextPlain_has_key:
  assumes "addTextPlain v bundle = Inr b"
  shows "bundleHasKey b ''text/plain''"
  using assms bundleHasKey_update [of "''text/plain''" _ "bundle"]
  by (auto simp: addTextPlain_def split: sum.splits if_splits)

lemma toMimeResult_Some:
  assumes "toMimeResult v = Inr (Some m)"
  shows "\<exists>f. getProp v ''_toMime'' = Inr f \<and> callFunction f = Inr m"
  using assms by (auto simp: toMimeResult_def split: sum.splits if_splits)

lemma getCustomMimeBundle_Some:
  assumes "getCustomMimeBundle v = Inr (Some c)"
  shows "bundleHasKey c ''text/plain'' \<or>
    (\<exists>f. getProp v ''_toMime'' = Inr f \<and> callFunction f = Inr c)"
proof (cases "toMimeResult v")
  case (Inl e)
  then show ?thesis using assms by (simp add: getCustomMimeBundle_def)
next
  case (Inr r)
  show ?thesis
  proof (cases r)
    case (Some m)
    then have "c = m" using assms Inr by (simp add: getCustomMimeBundle_def)
    then show ?thesis using toMimeResult_Some Inr Some by blast
  next
    case None
    then obtain bu where "addTextPlain v bu = Inr c"
      using assms Inr
      by (auto simp: getCustomMimeBundle_def split: sum.splits if_splits prod.splits)
    then show ?thesis using addTextPlain_has_key by blast
  qed
qed

lemma presentObject_has_key:
  assumes "presentObject v cls own str = Inr b"
  shows "bundleHasKey b ''text/plain'' \<or> (hasProp v ''data'' \<and> getProp v ''data'' = Inr b)"
proof (cases cls)
  case (CanvasElement toDataURL width height outerHTML)
  then show ?thesis
    using assms
    by (auto simp: presentObject_def getDOMElementMimeBundle_def bundleHasKey_literal split: sum.splits)
next
  case (HTMLElement outerHTML)
  then show ?thesis
    using assms
    by (auto simp: presentObject_def getDOMElementMimeBundle_def bundleHasKey_literal)
next
  case (PlainObject ctor)
  then show ?thesis
    using assms
    by (auto simp: presentObject_def bundleHasKey_literal split: if_splits sum.splits)
qed (use assms in \<open>auto simp: presentObject_def bundleHasKey_literal
       split: if_splits sum.splits option.splits prod.splits\<close>)

lemma presentFunction_has_key:
  assumes "presentFunction v = Inr b"
  shows "bundleHasKey b ''text/plain''"
  using assms
  by (auto simp: presentFunction_def andThen_def bundleHasKey_literal split: sum.splits)

text \<open>
  Claim C5, as amended.  Every bundle that \<open>getMimeBundle\<close> builds itself has the key
  \<open>text/plain\<close>.  The two bundles it does not build are handed on as they are: the object
  a \<open>_toMime\<close> method returned, and the \<open>data\<close> field of a value that looks like a
  bundle already.  So a returned bundle has the key \<open>text/plain\<close>, or it is what \<open>_toMime\<close>
  returned, or it is the value's \<open>data\<close> field.
\<close>

theorem getMimeBundle_text_plain:
  assumes "getMimeBundle v = Inr b"
  shows "bundleHasKey b ''text/plain'' \<or>
    (\<exists>f. getProp v ''_toMime'' = Inr f \<and> callFunction f = Inr b) \<or>
    (hasProp v ''data'' \<and> getProp v ''data'' = Inr b)"
proof (cases v)
  case (JObject cls own inherited str)
  show ?thesis
  proof (cases "getCustomMimeBundle v")
    case (Inl e)
    then show ?thesis using assms JObject by (simp add: getMimeBundle_def)
  next
    case (Inr r)
    show ?thesis
    proof (cases r)
      case (Some c)
      then have "b = c" using assms JObject Inr by (simp add: getMimeBundle_def)
      then show ?thesis using getCustomMimeBundle_Some Inr Some by blast
    next
      case None
      then have "presentObject v cls own str = Inr b"
        using assms JObject Inr by (simp add: getMimeBundle_def)
      then show ?thesis using presentObject_has_key by blast
    qed
  qed
next
  case (JFunction fname src call props)
  then show ?thesis
    using assms presentFunction_has_key by (simp add: getMimeBundle_def)
qed (use assms in \<open>auto simp: getMimeBundle_def bundleHasKey_literal split: if_splits\<close>)

theorem getMimeBundle_text_plain_witness:
  "getMimeBundle (JNumber ''42'') = Inr (objectLiteral [(''text/plain'', JString ''42'')]) \<and>
   bundleHasKey (objectLiteral [(''text/plain'', JString ''42'')]) ''text/plain''"
proof -
  have g: "getMimeBundle (JNumber ''42'') = Inr (objectLiteral [(''text/plain'', JString ''42'')])"
    by (simp add: getMimeBundle_def)
  have n1: "\<not> (\<exists>f. getProp (JNumber ''42'') ''_toMime'' = Inr f
      \<and> callFunction f = Inr (objectLiteral [(''text/plain'', JString ''42'')]))"
    by (simp add: getProp_def properties_def callFunction_def)
  have n2: "\<not> hasProp (JNumber ''42'') ''data''"
    by (simp add: hasProp_def properties_def)
  show ?thesis
    using getMimeBundle_text_plain [OF g] g n1 n2 by blast
qed

text \<open>
  The claim as stated extends the key to the bundles that come from \<open>_toMime\<close> and from a
  \<open>data\<close> field.  A \<open>_toMime\<close> that returns only \<open>text/html\<close>, and a \<open>data\<close> field
  that holds only \<open>image/png\<close>, come back without \<open>text/plain\<close>.
\<close>

theorem getMimeBundle_passthrough_counterexample:
  "getMimeBundle
     (JObject (PlainObject (Some ''Point''))
        [(''_toMime'', Data (JFunction ''_toMime'' ''_toMime() { return this.bundle; }''
                          (Inr (objectLiteral [(''text/html'', JString ''<b>p</b>'')])) []))]
        [] (Inr ''[object Object]''))
     = Inr (objectLiteral [(''text/html'', JString ''<b>p</b>'')]) \<and>
   \<not> bundleHasKey (objectLiteral [(''text/html'', JString ''<b>p</b>'')]) ''text/plain'' \<and>
   getMimeBundle
     (JObject (PlainObject (Some ''Object''))
        [(''data'', Data (objectLiteral [(''image/png'', JString ''iVBORw0KGgo='')]))]
        [] (Inr ''[object Object]''))
     = Inr (objectLiteral [(''image/png'', JString ''iVBORw0KGgo='')]) \<and>
   \<not> bundleHasKey (objectLiteral [(''image/png'', JString ''iVBORw0KGgo='')]) ''text/plain''"
  by (simp add: getMimeBundle_def getCustomMimeBundle_def toMimeResult_def getProp_def
      properties_def typeof_def callFunction_def truthy_def objectLiteral_def stringHooks_def
      stringHook_def andThen_def presentObject_def hasProp_def bundleHasKey_def)










text \<open>
  Claim C4.  The claim has \<open>getMimeBundle\<close> return a bundle for every value and never
  throw.  For a date whose time value is NaN, \<open>toISOString\<close> throws a RangeError outside any
  \<open>try\<close>; for an object whose \<open>_toHtml\<close> property is a getter that throws, the probe reads
  the property outside its \<open>try\<close>.  In both cases the error leaves \<open>getMimeBundle\<close>.
\<close>

theorem getMimeBundle_throws:
  "getMimeBundle (JObject (DateObject None) [] [] (Inr ''Invalid Date'')) = Inl RangeError \<and>
   getMimeBundle
     (JObject (PlainObject (Some ''Object'')) [(''_toHtml'', Getter (Thrown ''boom''))] []
        (Inr ''[object Object]''))
     = Inl (Thrown ''boom'')"
  by (simp add: getMimeBundle_def getCustomMimeBundle_def toMimeResult_def getProp_def
      properties_def typeof_def stringHooks_def stringHook_def andThen_def presentObject_def)

end
